theory Spec2Isabelle
  imports Main "HOL-Library.Char_ord" "HOL-Library.List_Lexorder"
begin

section \<open>Strings and pure paths\<close>

text \<open>
  Python strings are modelled as \<^typ>\<open>string\<close>, a character being a code point below 256.
  \<open>str.strip()\<close> removes the characters for which \<open>str.isspace\<close> holds; below 256
  these are 9..13, 28..32, 133 and 160.
\<close>

definition isspace :: "char \<Rightarrow> bool" where
  "isspace c = (of_char c \<in> {9, 10, 11, 12, 13, 28, 29, 30, 31, 32, 133, 160 :: nat})"

definition strip :: "string \<Rightarrow> string" where
  "strip t = rev (dropWhile isspace (rev (dropWhile isspace t)))"

definition startswith :: "string \<Rightarrow> string \<Rightarrow> bool" where
  "startswith t pre = (take (length pre) t = pre)"

text \<open>
  A \<open>pathlib\<close> path on a POSIX system: its root, which is empty for a relative path, \<open>/\<close>,
  or \<open>//\<close> for a text that starts with exactly two slashes, and its components. The
  constructor \<open>Path\<close> of the source parses a string: empty components and \<open>.\<close> components
  disappear, \<open>..\<close> stays.
\<close>

datatype path = PurePath (path_root: string) (parts: "string list")

definition is_absolute :: "path \<Rightarrow> bool" where
  "is_absolute p = (path_root p \<noteq> [])"

fun split_sep :: "string \<Rightarrow> string list" where
  "split_sep [] = [[]]"
| "split_sep (c # cs) =
     (if c = CHR ''/'' then [] # split_sep cs
      else (case split_sep cs of [] \<Rightarrow> [[c]] | x # xs \<Rightarrow> (c # x) # xs))"

definition root_of :: "string \<Rightarrow> string" where
  "root_of t =
     (if startswith t ''//'' \<and> \<not> startswith t ''///'' then ''//''
      else if startswith t ''/'' then ''/''
      else [])"

definition Path :: "string \<Rightarrow> path" where
  "Path t = PurePath (root_of t) (filter (\<lambda>c. c \<noteq> [] \<and> c \<noteq> ''.'') (split_sep t))"

fun join_sep :: "string list \<Rightarrow> string" where
  "join_sep [] = []"
| "join_sep [x] = x"
| "join_sep (x # y # ys) = x @ ''/'' @ join_sep (y # ys)"

definition path_str :: "path \<Rightarrow> string" where
  "path_str p =
     (if is_absolute p then path_root p @ join_sep (parts p)
      else if parts p = [] then ''.'' else join_sep (parts p))"

text \<open>\<open>p / q\<close>: an absolute right operand replaces the left one.\<close>

definition joinpath :: "path \<Rightarrow> path \<Rightarrow> path" where
  "joinpath p q =
     (if is_absolute q then q else PurePath (path_root p) (parts p @ parts q))"

definition path_parent :: "path \<Rightarrow> path" where
  "path_parent p = PurePath (path_root p) (butlast (parts p))"

definition path_name :: "path \<Rightarrow> string" where
  "path_name p = (if parts p = [] then [] else last (parts p))"

text \<open>
  Paths are ordered as \<open>pathlib\<close> orders them: component by component, each slash of the
  root counting as a first, empty component. \<open>sorted\<close> is \<^const>\<open>sort_key\<close> on that key.
\<close>

definition path_key :: "path \<Rightarrow> string list" where
  "path_key p = map (\<lambda>c. []) (path_root p) @ parts p"

definition sorted_paths :: "path list \<Rightarrow> path list" where
  "sorted_paths ps = sort_key path_key ps"

section \<open>Data model\<close>

datatype tier = Base | Pack | Project

datatype source =
  Module_ancestor | Exec_ancestor | Global_root | Project_root | Config_root | Explicit

fun TIER_PRIORITY :: "tier \<Rightarrow> nat" where
  "TIER_PRIORITY Base = 1"
| "TIER_PRIORITY Pack = 2"
| "TIER_PRIORITY Project = 3"

fun TIER_DIRS :: "tier \<Rightarrow> string" where
  "TIER_DIRS Base = ''base''"
| "TIER_DIRS Pack = ''packs''"
| "TIER_DIRS Project = ''project''"

text \<open>\<open>SOURCE_PRIORITIES\<close> has no key \<open>explicit\<close>: looking it up raises \<open>KeyError\<close>.\<close>

fun SOURCE_PRIORITIES :: "source \<Rightarrow> nat option" where
  "SOURCE_PRIORITIES Module_ancestor = Some 1"
| "SOURCE_PRIORITIES Exec_ancestor = Some 2"
| "SOURCE_PRIORITIES Global_root = Some 3"
| "SOURCE_PRIORITIES Project_root = Some 4"
| "SOURCE_PRIORITIES Config_root = Some 5"
| "SOURCE_PRIORITIES Explicit = None"

definition MAX_ANCESTOR_DEPTH :: nat where
  "MAX_ANCESTOR_DEPTH = 10"

record SkillRoot =
  root_dir :: path
  skill_dir :: path
  source :: source

record SkillEntry =
  name :: string
  tier :: tier
  file_path :: path
  base_dir :: path
  root :: SkillRoot

text \<open>
  A value that \<open>yaml.safe_load\<close> returns. A mapping keeps its keys in insertion order,
  as a Python \<open>dict\<close> does; \<open>YOther\<close> stands for the scalars this program never inspects.
  \<open>YShared i m\<close> is a mapping that the document uses more than once, through the anchor
  \<open>i\<close> and its aliases: all its occurrences are one Python object. The document itself is
  never one (it would hold itself).
\<close>

datatype yaml =
  YNull | YBool bool | YInt int | YStr string | YOther string
| YList "yaml list" | YDict "(yaml \<times> yaml) list" | YShared nat "(yaml \<times> yaml) list"

text \<open>A value that \<open>json.loads\<close> returns; the keys of an object are texts.\<close>

datatype json =
  JNull | JBool bool | JNumber string | JString string
| JArray "json list" | JObject "(string \<times> json) list"

datatype exn =
  RuntimeError string | KeyError string | IndexError | OSError string | Exception string

section \<open>The environment\<close>

text \<open>
  Everything the program asks of the operating system, of \<open>yaml\<close>, of \<open>json\<close> and of the
  validator is a field of one record; \<open>'s\<close> is the state of the filesystem.
  Queries read the state and are taken to succeed, the listings \<open>iterdir\<close> and \<open>rglob\<close>
  and the calls \<open>Path.home\<close> and \<open>Path.resolve\<close> among them (\<open>Path.resolve\<close> raises on a
  text with a NUL character, which the model does not follow). \<open>read_decoded\<close> is the
  content of a file, decoded, and can raise; \<open>write_text\<close> makes its text the content of
  the file (the line separator of a POSIX system is the line feed, so it rewrites none).
  An operation that writes returns the new state and the exception it raised, if any (a
  failed copy may leave a partial tree). \<open>safe_load\<close> returns \<open>Inl\<close> for a
  \<open>yaml.YAMLError\<close>, the one exception the source expects of it. \<open>environ_get k\<close> is
  \<open>os.environ.get(k, "")\<close>; \<open>utcnow_stamp\<close> is the text the source computes from
  \<open>datetime.now\<close>; \<open>validate_skill\<close> is \<open>None\<close> when \<open>quick_validate\<close> could not be
  imported.
\<close>

record 's sys =
  Path_home :: path
  Path_cwd :: path
  module_file :: path
  executable :: path
  environ_get :: "string \<Rightarrow> string"
  resolve :: "'s \<Rightarrow> path \<Rightarrow> path"
  is_dir :: "'s \<Rightarrow> path \<Rightarrow> bool"
  is_file :: "'s \<Rightarrow> path \<Rightarrow> bool"
  exists :: "'s \<Rightarrow> path \<Rightarrow> bool"
  iterdir :: "'s \<Rightarrow> path \<Rightarrow> path list"
  rglob :: "'s \<Rightarrow> path \<Rightarrow> string \<Rightarrow> path list"
  read_decoded :: "'s \<Rightarrow> path \<Rightarrow> exn + string"
  write_text :: "'s \<Rightarrow> path \<Rightarrow> string \<Rightarrow> 's \<times> exn option"
  mkdtemp :: "'s \<Rightarrow> string \<Rightarrow> 's \<times> (exn + path)"
  copytree :: "'s \<Rightarrow> path \<Rightarrow> path \<Rightarrow> 's \<times> exn option"
  rmtree :: "'s \<Rightarrow> path \<Rightarrow> 's \<times> exn option"
  rmtree_ignore_errors :: "'s \<Rightarrow> path \<Rightarrow> 's"
  mkdir_parents :: "'s \<Rightarrow> path \<Rightarrow> 's \<times> exn option"
  safe_load :: "string \<Rightarrow> string + yaml"
  safe_dump :: "yaml \<Rightarrow> exn + string"
  validate_skill :: "('s \<Rightarrow> string \<Rightarrow> exn + bool \<times> string) option"
  json_loads :: "string \<Rightarrow> exn + json"
  utcnow_stamp :: string

text \<open>
  \<open>Path.read_text\<close> opens the file in text mode: every carriage return with its line feed,
  and every carriage return alone, is read as one line feed.
\<close>

fun universal_newlines :: "string \<Rightarrow> string" where
  "universal_newlines [] = []"
| "universal_newlines [c] = [if c = CHR 0x0D then CHR 0x0A else c]"
| "universal_newlines (c # d # ds) =
     (if c = CHR 0x0D then
        (if d = CHR 0x0A then CHR 0x0A # universal_newlines ds
         else CHR 0x0A # universal_newlines (d # ds))
      else c # universal_newlines (d # ds))"

definition read_text :: "'s sys \<Rightarrow> 's \<Rightarrow> path \<Rightarrow> exn + string" where
  "read_text sys s p =
     (case read_decoded sys s p of
        Inl e \<Rightarrow> Inl e
      | Inr decoded \<Rightarrow> Inr (universal_newlines decoded))"

section \<open>Path Normalizer\<close>

definition normalize_path_input :: "'s sys \<Rightarrow> string \<Rightarrow> string" where
  "normalize_path_input sys path_text =
     (let trimmed = strip path_text in
      if trimmed = [] then trimmed
      else if trimmed = ''~'' then path_str (Path_home sys)
      else if startswith trimmed ''~/'' then path_str (joinpath (Path_home sys) (Path (drop 2 trimmed)))
      else trimmed)"

definition resolve_maybe_absolute :: "'s sys \<Rightarrow> 's \<Rightarrow> string \<Rightarrow> path \<Rightarrow> path" where
  "resolve_maybe_absolute sys s path_text base_dir' =
     (let normalized = normalize_path_input sys path_text;
          candidate = Path normalized in
      if is_absolute candidate then resolve sys s candidate
      else resolve sys s (joinpath base_dir' candidate))"

section \<open>Front matter\<close>

text \<open>
  \<open>FRONTMATTER_RE\<close> is \<open>^---\n([\s\S]*?)\n---\n?([\s\S]*)$\<close>, matched at the start of the
  text. The first group is lazy, so it ends at the first newline followed by three dashes;
  the optional newline is greedy; the second group takes the rest.
\<close>

fun find_close :: "string \<Rightarrow> (string \<times> string) option" where
  "find_close [] = None"
| "find_close (c # cs) =
     (if c = CHR 0x0A \<and> take 3 cs = ''---'' then Some ([], drop 3 cs)
      else map_option (\<lambda>(g, r). (c # g, r)) (find_close cs))"

definition FRONTMATTER_RE_match :: "string \<Rightarrow> (string \<times> string) option" where
  "FRONTMATTER_RE_match content =
     (if take 4 content = ''---'' @ [CHR 0x0A] then
        (case find_close (drop 4 content) of
           None \<Rightarrow> None
         | Some (g1, rest) \<Rightarrow>
             Some (g1, if rest \<noteq> [] \<and> hd rest = CHR 0x0A then tl rest else rest))
      else None)"

definition parse_frontmatter :: "'s sys \<Rightarrow> string \<Rightarrow> (yaml \<times> yaml) list \<times> string" where
  "parse_frontmatter sys content =
     (case FRONTMATTER_RE_match content of
        None \<Rightarrow> ([], content)
      | Some (yaml_text, body) \<Rightarrow>
          (case safe_load sys yaml_text of
             Inl _ \<Rightarrow> ([], body)
           | Inr (YDict parsed) \<Rightarrow> (parsed, body)
           | Inr _ \<Rightarrow> ([], body)))"

text \<open>\<open>frontmatter.get(key)\<close>, and the name an entry gets from its header.\<close>

definition dict_get :: "(yaml \<times> yaml) list \<Rightarrow> string \<Rightarrow> yaml option" where
  "dict_get d k = map_of d (YStr k)"

definition declared_or_dirname :: "(yaml \<times> yaml) list \<Rightarrow> path \<Rightarrow> string" where
  "declared_or_dirname frontmatter skill_md =
     (case dict_get frontmatter ''name'' of
        Some (YStr candidate_name) \<Rightarrow>
          (if strip candidate_name \<noteq> [] then strip candidate_name
           else path_name (path_parent skill_md))
      | _ \<Rightarrow> path_name (path_parent skill_md))"

section \<open>Tier Entry Loader and Registry Builder\<close>

fun load_tier_entries_loop ::
  "'s sys \<Rightarrow> 's \<Rightarrow> tier \<Rightarrow> SkillRoot \<Rightarrow> path list \<Rightarrow> SkillEntry list \<Rightarrow> SkillEntry list" where
  "load_tier_entries_loop sys s tier' root' [] out = out"
| "load_tier_entries_loop sys s tier' root' (skill_md # rest) out =
     (case read_text sys s skill_md of
        Inl _ \<Rightarrow> load_tier_entries_loop sys s tier' root' rest out
      | Inr raw \<Rightarrow>
          load_tier_entries_loop sys s tier' root' rest
            (out @ [\<lparr>name = declared_or_dirname (fst (parse_frontmatter sys raw)) skill_md,
                     tier = tier',
                     file_path = resolve sys s skill_md,
                     base_dir = resolve sys s (path_parent skill_md),
                     root = root'\<rparr>]))"

definition load_tier_entries :: "'s sys \<Rightarrow> 's \<Rightarrow> path \<Rightarrow> tier \<Rightarrow> SkillRoot \<Rightarrow> SkillEntry list" where
  "load_tier_entries sys s tier_dir tier' root' =
     (if \<not> is_dir sys s tier_dir then []
      else load_tier_entries_loop sys s tier' root'
             (sorted_paths (rglob sys s tier_dir ''SKILL.md'')) [])"

text \<open>The loop over \<open>sorted(packs_dir.iterdir())\<close>, with its two \<open>continue\<close>s.\<close>

fun extend_packs ::
  "'s sys \<Rightarrow> 's \<Rightarrow> string set \<Rightarrow> bool \<Rightarrow> SkillRoot \<Rightarrow> path list \<Rightarrow> SkillEntry list \<Rightarrow> SkillEntry list" where
  "extend_packs sys s active_pack_set include_all_packs root' [] tier_entries = tier_entries"
| "extend_packs sys s active_pack_set include_all_packs root' (pack_dir # rest) tier_entries =
     (if \<not> is_dir sys s pack_dir then
        extend_packs sys s active_pack_set include_all_packs root' rest tier_entries
      else if \<not> include_all_packs \<and> path_name pack_dir \<notin> active_pack_set then
        extend_packs sys s active_pack_set include_all_packs root' rest tier_entries
      else
        extend_packs sys s active_pack_set include_all_packs root' rest
          (tier_entries @ load_tier_entries sys s pack_dir Pack root'))"

text \<open>The list \<open>tier_entries\<close> that the body of the loop over the roots builds for one root.\<close>

definition tier_entries :: "'s sys \<Rightarrow> 's \<Rightarrow> string set \<Rightarrow> SkillRoot \<Rightarrow> SkillEntry list" where
  "tier_entries sys s active_pack_set root' =
     (let te0 = load_tier_entries sys s (joinpath (skill_dir root') (Path ''base'')) Base root';
          packs_dir = joinpath (skill_dir root') (Path ''packs'');
          include_all_packs = (source root' \<in> {Project_root, Config_root});
          te1 = (if is_dir sys s packs_dir then
                   extend_packs sys s active_pack_set include_all_packs root'
                     (sorted_paths (iterdir sys s packs_dir)) te0
                 else te0)
      in te1 @ load_tier_entries sys s (joinpath (skill_dir root') (Path ''project'')) Project root')"

text \<open>The inner loop: every entry is recorded, and installed under its name unless a
  strictly higher tier holds the name.\<close>

fun merge_entries ::
  "SkillEntry list \<Rightarrow> (string \<rightharpoonup> SkillEntry) \<times> SkillEntry list
     \<Rightarrow> (string \<rightharpoonup> SkillEntry) \<times> SkillEntry list" where
  "merge_entries [] acc = acc"
| "merge_entries (entry # rest) (loaded, all_entries) =
     (case loaded (name entry) of
        None \<Rightarrow> merge_entries rest (loaded(name entry \<mapsto> entry), all_entries @ [entry])
      | Some existing \<Rightarrow>
          (if TIER_PRIORITY (tier entry) \<ge> TIER_PRIORITY (tier existing) then
             merge_entries rest (loaded(name entry \<mapsto> entry), all_entries @ [entry])
           else merge_entries rest (loaded, all_entries @ [entry])))"

fun load_registry_loop ::
  "'s sys \<Rightarrow> 's \<Rightarrow> string set \<Rightarrow> SkillRoot list
     \<Rightarrow> (string \<rightharpoonup> SkillEntry) \<times> SkillEntry list
     \<Rightarrow> (string \<rightharpoonup> SkillEntry) \<times> SkillEntry list" where
  "load_registry_loop sys s active_pack_set [] acc = acc"
| "load_registry_loop sys s active_pack_set (root' # roots) acc =
     load_registry_loop sys s active_pack_set roots
       (merge_entries (tier_entries sys s active_pack_set root') acc)"

definition load_registry ::
  "'s sys \<Rightarrow> 's \<Rightarrow> SkillRoot list \<Rightarrow> string list
     \<Rightarrow> (string \<rightharpoonup> SkillEntry) \<times> SkillEntry list" where
  "load_registry sys s roots active_packs =
     load_registry_loop sys s (set active_packs) roots (Map.empty, [])"

section \<open>Root Discovery\<close>

definition resolve_global_brewva_root :: "'s sys \<Rightarrow> 's \<Rightarrow> path \<Rightarrow> path" where
  "resolve_global_brewva_root sys s cwd =
     (let agent_dir = strip (environ_get sys ''BREWVA_CODING_AGENT_DIR'') in
      if agent_dir \<noteq> [] then
        resolve sys s (joinpath (resolve_maybe_absolute sys s agent_dir cwd) (Path ''..''))
      else
        (let xdg = strip (environ_get sys ''XDG_CONFIG_HOME'') in
         if xdg \<noteq> [] then resolve_maybe_absolute sys s (xdg @ ''/brewva'') cwd
         else resolve sys s
                (joinpath (joinpath (Path_home sys) (Path ''.config'')) (Path ''brewva''))))"

definition resolve_project_brewva_root :: "'s sys \<Rightarrow> 's \<Rightarrow> path \<Rightarrow> path" where
  "resolve_project_brewva_root sys s cwd = resolve sys s (joinpath cwd (Path ''.brewva''))"

definition has_tier_directories :: "'s sys \<Rightarrow> 's \<Rightarrow> path \<Rightarrow> bool" where
  "has_tier_directories sys s p =
     (is_dir sys s (joinpath p (Path ''base'')) \<or> is_dir sys s (joinpath p (Path ''packs''))
      \<or> is_dir sys s (joinpath p (Path ''project'')))"

definition resolve_skill_directory :: "'s sys \<Rightarrow> 's \<Rightarrow> path \<Rightarrow> path option" where
  "resolve_skill_directory sys s root_dir' =
     (let normalized = resolve sys s root_dir' in
      if has_tier_directories sys s normalized then Some normalized
      else
        (let nested = joinpath normalized (Path ''skills'') in
         if has_tier_directories sys s nested then Some (resolve sys s nested) else None))"

fun collect_loop :: "nat \<Rightarrow> path \<Rightarrow> path list \<Rightarrow> path list" where
  "collect_loop 0 current out = out"
| "collect_loop (Suc k) current out =
     (if path_parent current = current then out @ [current]
      else collect_loop k (path_parent current) (out @ [current]))"

definition collect_bounded_ancestors :: "'s sys \<Rightarrow> 's \<Rightarrow> path \<Rightarrow> path list" where
  "collect_bounded_ancestors sys s start_dir =
     collect_loop MAX_ANCESTOR_DEPTH (resolve sys s start_dir) []"

text \<open>
  The list \<open>roots\<close> and the dictionary \<open>index_by_skill_dir\<close> are updated in place by the
  source; here they are passed and returned. \<open>roots[existing_index]\<close> raises \<open>IndexError\<close>
  out of range and a provenance without a priority raises \<open>KeyError\<close>.
\<close>

definition append_discovered_root ::
  "'s sys \<Rightarrow> 's \<Rightarrow> SkillRoot list \<Rightarrow> (string \<rightharpoonup> nat) \<Rightarrow> path \<Rightarrow> source
     \<Rightarrow> exn + SkillRoot list \<times> (string \<rightharpoonup> nat)" where
  "append_discovered_root sys s roots index_by_skill_dir root_dir' source' =
     (case resolve_skill_directory sys s root_dir' of
        None \<Rightarrow> Inr (roots, index_by_skill_dir)
      | Some skill_dir' \<Rightarrow>
          (let key = path_str (resolve sys s skill_dir') in
           case index_by_skill_dir key of
             Some existing_index \<Rightarrow>
               (if existing_index < length roots then
                  (let existing = roots ! existing_index in
                   case (SOURCE_PRIORITIES source', SOURCE_PRIORITIES (source existing)) of
                     (Some new_priority, Some old_priority) \<Rightarrow>
                       (if new_priority > old_priority then
                          Inr (roots[existing_index :=
                                 \<lparr>root_dir = resolve sys s root_dir',
                                  skill_dir = skill_dir existing,
                                  source = source'\<rparr>], index_by_skill_dir)
                        else Inr (roots, index_by_skill_dir))
                   | _ \<Rightarrow> Inl (KeyError ''SOURCE_PRIORITIES''))
                else Inl IndexError)
           | None \<Rightarrow>
               Inr (roots @ [\<lparr>root_dir = resolve sys s root_dir',
                              skill_dir = resolve sys s skill_dir',
                              source = source'\<rparr>],
                    index_by_skill_dir(key \<mapsto> length roots))))"

fun append_all ::
  "'s sys \<Rightarrow> 's \<Rightarrow> (path \<times> source) list \<Rightarrow> SkillRoot list \<times> (string \<rightharpoonup> nat)
     \<Rightarrow> exn + SkillRoot list \<times> (string \<rightharpoonup> nat)" where
  "append_all sys s [] acc = Inr acc"
| "append_all sys s ((root_dir', source') # rest) (roots, index_by_skill_dir) =
     (case append_discovered_root sys s roots index_by_skill_dir root_dir' source' of
        Inl e \<Rightarrow> Inl e
      | Inr acc' \<Rightarrow> append_all sys s rest acc')"

text \<open>The five registration loops of \<open>discover_skill_roots\<close>, in their order.\<close>

definition discovery_candidates :: "'s sys \<Rightarrow> 's \<Rightarrow> path \<Rightarrow> path list \<Rightarrow> (path \<times> source) list" where
  "discovery_candidates sys s cwd configured_roots =
     map (\<lambda>ancestor. (ancestor, Module_ancestor))
       (rev (collect_bounded_ancestors sys s (path_parent (resolve sys s (module_file sys)))))
     @ map (\<lambda>ancestor. (ancestor, Exec_ancestor))
       (rev (collect_bounded_ancestors sys s (path_parent (resolve sys s (executable sys)))))
     @ [(resolve_global_brewva_root sys s cwd, Global_root),
        (resolve_project_brewva_root sys s cwd, Project_root)]
     @ map (\<lambda>configured. (configured, Config_root)) configured_roots"

definition discover_skill_roots :: "'s sys \<Rightarrow> 's \<Rightarrow> path \<Rightarrow> path list \<Rightarrow> exn + SkillRoot list" where
  "discover_skill_roots sys s cwd configured_roots =
     (case append_all sys s (discovery_candidates sys s cwd configured_roots) ([], Map.empty) of
        Inl e \<Rightarrow> Inl e
      | Inr (roots, _) \<Rightarrow> Inr roots)"

section \<open>Settings Loader\<close>

definition DEFAULT_PACKS :: "string list" where
  "DEFAULT_PACKS = [''typescript'', ''react'', ''bun'', ''skill-creator'']"

fun normalize_loop :: "json list \<Rightarrow> string list \<Rightarrow> string list" where
  "normalize_loop [] normalized = normalized"
| "normalize_loop (item # rest) normalized =
     (case item of
        JString t \<Rightarrow>
          (if strip t \<noteq> [] then normalize_loop rest (normalized @ [strip t])
           else normalize_loop rest normalized)
      | _ \<Rightarrow> normalize_loop rest normalized)"

definition normalize_string_array :: "json \<Rightarrow> string list \<Rightarrow> string list" where
  "normalize_string_array value' fallback =
     (case value' of
        JArray items \<Rightarrow> normalize_loop items []
      | _ \<Rightarrow> fallback)"

definition read_json_file :: "'s sys \<Rightarrow> 's \<Rightarrow> path \<Rightarrow> (string \<times> json) list option" where
  "read_json_file sys s p =
     (if \<not> exists sys s p then None
      else
        (case read_text sys s p of
           Inl _ \<Rightarrow> None
         | Inr text \<Rightarrow>
             (case json_loads sys text of
                Inl _ \<Rightarrow> None
              | Inr (JObject payload) \<Rightarrow> Some payload
              | Inr _ \<Rightarrow> None)))"

text \<open>The loop over \<open>skills.roots\<close>: each text that is not blank, resolved from the directory
  of the configuration file.\<close>

fun configured_roots_loop ::
  "'s sys \<Rightarrow> 's \<Rightarrow> path \<Rightarrow> json list \<Rightarrow> path list \<Rightarrow> path list" where
  "configured_roots_loop sys s cfg_dir [] normalized = normalized"
| "configured_roots_loop sys s cfg_dir (entry # rest) normalized =
     (case entry of
        JString t \<Rightarrow>
          (if strip t \<noteq> [] then
             configured_roots_loop sys s cfg_dir rest
               (normalized @ [resolve_maybe_absolute sys s (strip t) cfg_dir])
           else configured_roots_loop sys s cfg_dir rest normalized)
      | _ \<Rightarrow> configured_roots_loop sys s cfg_dir rest normalized)"

text \<open>The body of the loop over the configuration files.\<close>

definition apply_config_file ::
  "'s sys \<Rightarrow> 's \<Rightarrow> string list \<times> path list \<times> string list \<Rightarrow> path
     \<Rightarrow> string list \<times> path list \<times> string list" where
  "apply_config_file sys s acc cfg_path =
     (case acc of
        (packs, configured_roots, disabled) \<Rightarrow>
          (case read_json_file sys s cfg_path of
             None \<Rightarrow> acc
           | Some loaded \<Rightarrow>
               if loaded = [] then acc
               else
                 (case map_of loaded ''skills'' of
                    Some (JObject skills) \<Rightarrow>
                      ((case map_of skills ''packs'' of
                          Some v \<Rightarrow> normalize_string_array v packs
                        | None \<Rightarrow> packs),
                       (case map_of skills ''roots'' of
                          Some (JArray roots) \<Rightarrow>
                            configured_roots_loop sys s (path_parent cfg_path) roots []
                        | Some _ \<Rightarrow> []
                        | None \<Rightarrow> configured_roots),
                       (case map_of skills ''disabled'' of
                          Some v \<Rightarrow> normalize_string_array v disabled
                        | None \<Rightarrow> disabled))
                  | _ \<Rightarrow> acc)))"

definition load_skill_settings ::
  "'s sys \<Rightarrow> 's \<Rightarrow> path \<Rightarrow> string option
     \<Rightarrow> string list \<times> path list \<times> string list \<times> path list" where
  "load_skill_settings sys s cwd config_path =
     (let config_files =
            (case (case config_path of None \<Rightarrow> None
                   | Some t \<Rightarrow> if t = [] then None else Some t) of
               Some t \<Rightarrow> [resolve_maybe_absolute sys s t cwd]
             | None \<Rightarrow>
                 [joinpath (resolve_global_brewva_root sys s cwd) (Path ''brewva.json''),
                  joinpath (resolve_project_brewva_root sys s cwd) (Path ''brewva.json'')])
      in case foldl (apply_config_file sys s) (DEFAULT_PACKS, [], []) config_files of
           (packs, configured_roots, disabled) \<Rightarrow>
             (packs, configured_roots, disabled, config_files))"

section \<open>Fork Engine: source and destination\<close>

definition quoted :: "string \<Rightarrow> string" where
  "quoted t = [CHR 0x27] @ t @ [CHR 0x27]"

definition tier_of_parent :: "string \<Rightarrow> tier" where
  "tier_of_parent parent_tier =
     (if parent_tier = ''base'' then Base
      else if parent_tier = ''packs'' then Pack
      else if parent_tier = ''project'' then Project
      else Pack)"

definition resolve_explicit_source ::
  "'s sys \<Rightarrow> 's \<Rightarrow> string \<Rightarrow> string \<Rightarrow> path \<Rightarrow> exn + SkillEntry" where
  "resolve_explicit_source sys s skill_name source_path cwd =
     (let candidate = resolve_maybe_absolute sys s source_path cwd;
          skill_md = (if is_dir sys s candidate then joinpath candidate (Path ''SKILL.md'')
                      else candidate)
      in
      if \<not> is_file sys s skill_md then
        Inl (RuntimeError (''Source path does not contain SKILL.md: '' @ path_str candidate))
      else if path_name skill_md \<noteq> ''SKILL.md'' then
        Inl (RuntimeError
               (''Source path must point to SKILL.md or its directory: '' @ path_str candidate))
      else
        (case read_text sys s skill_md of
           Inl e \<Rightarrow> Inl e
         | Inr raw \<Rightarrow>
             (let resolved_name = declared_or_dirname (fst (parse_frontmatter sys raw)) skill_md in
              if resolved_name \<noteq> skill_name then
                Inl (RuntimeError
                       (''Requested skill '' @ quoted skill_name @ '' but source declares ''
                        @ quoted resolved_name @ '' ('' @ path_str skill_md @ '')''))
              else
                Inr \<lparr>name = resolved_name,
                     tier = tier_of_parent (path_name (path_parent (path_parent skill_md))),
                     file_path = resolve sys s skill_md,
                     base_dir = resolve sys s (path_parent skill_md),
                     root = \<lparr>root_dir = path_parent (path_parent skill_md),
                             skill_dir = path_parent (path_parent skill_md),
                             source = Explicit\<rparr>\<rparr>)))"

definition resolve_destination_skill_root ::
  "'s sys \<Rightarrow> 's \<Rightarrow> string option \<Rightarrow> path \<Rightarrow> path \<times> string" where
  "resolve_destination_skill_root sys s path_arg cwd =
     (case (case path_arg of None \<Rightarrow> None | Some t \<Rightarrow> if t = [] then None else Some t) of
        None \<Rightarrow>
          (let project_root = resolve_project_brewva_root sys s cwd in
           if is_dir sys s project_root then
             (resolve sys s (joinpath project_root (Path ''skills'')), ''project_default'')
           else
             (resolve sys s (joinpath (resolve_global_brewva_root sys s cwd) (Path ''skills'')),
              ''global_default''))
      | Some path_text \<Rightarrow>
          (let explicit = resolve_maybe_absolute sys s path_text cwd in
           case resolve_skill_directory sys s explicit of
             Some resolved \<Rightarrow> (resolve sys s resolved, ''explicit_existing'')
           | None \<Rightarrow>
               (if path_name explicit = ''.brewva'' then
                  (resolve sys s (joinpath explicit (Path ''skills'')), ''explicit_brewva_root'')
                else if path_name explicit = ''skills'' then
                  (resolve sys s explicit, ''explicit_skills_root'')
                else (resolve sys s (joinpath explicit (Path ''skills'')), ''explicit_generic''))))"

section \<open>Fork Engine: metadata and validation\<close>

text \<open>\<open>d[k] = v\<close> on a \<open>dict\<close>: a key that is present keeps its place, a new key goes last.\<close>

fun dict_set :: "yaml \<Rightarrow> yaml \<Rightarrow> (yaml \<times> yaml) list \<Rightarrow> (yaml \<times> yaml) list" where
  "dict_set k v [] = [(k, v)]"
| "dict_set k v ((k', v') # d) = (if k' = k then (k', v) # d else (k', v') # dict_set k v d)"

fun tier_str :: "tier \<Rightarrow> string" where
  "tier_str Base = ''base''"
| "tier_str Pack = ''pack''"
| "tier_str Project = ''project''"

fun source_str :: "source \<Rightarrow> string" where
  "source_str Module_ancestor = ''module_ancestor''"
| "source_str Exec_ancestor = ''exec_ancestor''"
| "source_str Global_root = ''global_root''"
| "source_str Project_root = ''project_root''"
| "source_str Config_root = ''config_root''"
| "source_str Explicit = ''explicit''"

definition fork_record :: "'s sys \<Rightarrow> SkillEntry \<Rightarrow> yaml" where
  "fork_record sys source_entry =
     YDict [(YStr ''source_name'', YStr (name source_entry)),
            (YStr ''source_tier'', YStr (tier_str (tier source_entry))),
            (YStr ''source_file'', YStr (path_str (file_path source_entry))),
            (YStr ''source_root'', YStr (path_str (skill_dir (root source_entry)))),
            (YStr ''source_origin'', YStr (source_str (source (root source_entry)))),
            (YStr ''forked_at'', YStr (utcnow_stamp sys)),
            (YStr ''forked_by'', YStr (environ_get sys ''USER'')),
            (YStr ''tool'', YStr ''skill-creator/scripts/fork_skill.py'')]"

text \<open>
  The source changes the mapping \<open>metadata\<close> in place. When that mapping is the shared one
  \<open>i\<close>, every occurrence of \<open>i\<close> in the header has the new items.
\<close>

fun set_shared :: "nat \<Rightarrow> (yaml \<times> yaml) list \<Rightarrow> yaml \<Rightarrow> yaml" where
  "set_shared i items (YShared j m) =
     (if j = i then YShared i items
      else YShared j (map (\<lambda>kv. (fst kv, set_shared i items (snd kv))) m))"
| "set_shared i items (YDict m) = YDict (map (\<lambda>kv. (fst kv, set_shared i items (snd kv))) m)"
| "set_shared i items (YList xs) = YList (map (set_shared i items) xs)"
| "set_shared i items y = y"

text \<open>The header after \<open>metadata["fork"] = ...\<close> and \<open>frontmatter["metadata"] = metadata\<close>.\<close>

definition with_fork_metadata :: "'s sys \<Rightarrow> SkillEntry \<Rightarrow> (yaml \<times> yaml) list \<Rightarrow> (yaml \<times> yaml) list" where
  "with_fork_metadata sys source_entry frontmatter =
     (case dict_get frontmatter ''metadata'' of
        Some (YShared i m) \<Rightarrow>
          map (\<lambda>kv. (fst kv,
                      set_shared i (dict_set (YStr ''fork'') (fork_record sys source_entry) m)
                        (snd kv)))
            frontmatter
      | Some (YDict m) \<Rightarrow>
          dict_set (YStr ''metadata'')
            (YDict (dict_set (YStr ''fork'') (fork_record sys source_entry) m)) frontmatter
      | _ \<Rightarrow>
          dict_set (YStr ''metadata'')
            (YDict (dict_set (YStr ''fork'') (fork_record sys source_entry) [])) frontmatter)"

definition rebuilt_text :: "string \<Rightarrow> string \<Rightarrow> string" where
  "rebuilt_text dumped body =
     ''---'' @ [CHR 0x0A] @ strip dumped @ [CHR 0x0A] @ ''---'' @ [CHR 0x0A] @ body"

definition inject_fork_metadata :: "'s sys \<Rightarrow> 's \<Rightarrow> path \<Rightarrow> SkillEntry \<Rightarrow> 's \<times> exn option" where
  "inject_fork_metadata sys s destination_skill_md source_entry =
     (case read_text sys s destination_skill_md of
        Inl e \<Rightarrow> (s, Some e)
      | Inr raw \<Rightarrow>
          (case parse_frontmatter sys raw of
             (frontmatter, body) \<Rightarrow>
               if frontmatter = [] then
                 (s, Some (RuntimeError (''Missing frontmatter in destination SKILL.md: ''
                                         @ path_str destination_skill_md)))
               else
                 (case safe_dump sys (YDict (with_fork_metadata sys source_entry frontmatter)) of
                    Inl e \<Rightarrow> (s, Some e)
                  | Inr dumped \<Rightarrow>
                      write_text sys s destination_skill_md (rebuilt_text dumped body))))"

fun exn_str :: "exn \<Rightarrow> string" where
  "exn_str (RuntimeError m) = m"
| "exn_str (KeyError m) = m"
| "exn_str IndexError = ''list index out of range''"
| "exn_str (OSError m) = m"
| "exn_str (Exception m) = m"

definition run_validation :: "'s sys \<Rightarrow> 's \<Rightarrow> path \<Rightarrow> bool \<times> string" where
  "run_validation sys s skill_dir' =
     (case validate_skill sys of
        None \<Rightarrow> (True, ''quick_validate unavailable; skipped'')
      | Some validate \<Rightarrow>
          (case validate s (path_str skill_dir') of
             Inr (ok, message) \<Rightarrow> (ok, message)
           | Inl error \<Rightarrow> (False, ''validator execution failed: '' @ exn_str error)))"

section \<open>Fork Engine: the workflow\<close>

text \<open>
  The parsed command line. \<open>main\<close> ends by returning an exit code or by an exception that
  nothing catches; the lines it prints at its gates are kept (without their pictographs),
  the informational lines, the hints and the \<open>--verbose\<close> listing are not. The list of
  configuration files, which only that listing uses, is dropped after the settings are
  loaded.
\<close>

record args =
  arg_skill_name :: string
  arg_source_path :: "string option"
  arg_target_path :: "string option"
  arg_tier :: "tier option"
  arg_config_path :: "string option"
  arg_force :: bool
  arg_dry_run :: bool
  arg_no_metadata :: bool
  arg_allow_inactive :: bool

datatype outcome = Return int "string list" | Raised exn

text \<open>Lines 497 to 511: the source entry, from \<open>--from\<close> or from the registry.\<close>

definition request_source ::
  "'s sys \<Rightarrow> 's \<Rightarrow> args \<Rightarrow> string \<Rightarrow> path \<Rightarrow> (string \<rightharpoonup> SkillEntry) \<Rightarrow> outcome + SkillEntry" where
  "request_source sys s a skill_name cwd loaded =
     (case (case arg_source_path a of None \<Rightarrow> None | Some t \<Rightarrow> if t = [] then None else Some t) of
        Some source_path \<Rightarrow>
          (case resolve_explicit_source sys s skill_name source_path cwd of
             Inr source_entry \<Rightarrow> Inr source_entry
           | Inl (RuntimeError error) \<Rightarrow> Inl (Return 1 [''Error: '' @ error])
           | Inl e \<Rightarrow> Inl (Raised e))
      | None \<Rightarrow>
          (case loaded skill_name of
             None \<Rightarrow> Inl (Return 1 [''Error: Skill '' @ quoted skill_name
                                      @ '' not found in resolved registry roots.''])
           | Some source_entry \<Rightarrow> Inr source_entry))"

definition destination_of ::
  "'s sys \<Rightarrow> 's \<Rightarrow> args \<Rightarrow> string \<Rightarrow> path \<Rightarrow> SkillEntry \<Rightarrow> path" where
  "destination_of sys s a skill_name cwd source_entry =
     (let destination_skill_root = fst (resolve_destination_skill_root sys s (arg_target_path a) cwd);
          destination_tier = (case arg_tier a of Some t \<Rightarrow> t | None \<Rightarrow> tier source_entry);
          destination_tier_dir = TIER_DIRS destination_tier
      in resolve sys s
           (joinpath (joinpath destination_skill_root (Path destination_tier_dir))
              (Path skill_name)))"

text \<open>
  Lines 537 to 543: the staging copy of a self-overwrite. It returns the state, and either
  the exception raised or the directory to copy from and the staging directory made.
\<close>

definition stage_source ::
  "'s sys \<Rightarrow> 's \<Rightarrow> args \<Rightarrow> SkillEntry \<Rightarrow> path \<Rightarrow> 's \<times> (exn + path \<times> path option)" where
  "stage_source sys s a source_entry destination_skill_dir =
     (let source_dir_for_copy = resolve sys s (base_dir source_entry) in
      if arg_force a \<and> source_dir_for_copy = resolve sys s destination_skill_dir then
        (case mkdtemp sys s ''brewva-skill-fork-stage-'' of
           (s1, Inl e) \<Rightarrow> (s1, Inl e)
         | (s1, Inr made) \<Rightarrow>
             (let staged_temp_dir = resolve sys s1 made;
                  staged_source = resolve sys s1 (joinpath staged_temp_dir (Path ''source''))
              in case copytree sys s1 source_dir_for_copy staged_source of
                   (s2, Some e) \<Rightarrow> (s2, Inl e)
                 | (s2, None) \<Rightarrow> (s2, Inr (staged_source, Some staged_temp_dir))))
      else (s, Inr (source_dir_for_copy, None)))"

text \<open>Lines 546 to 550: the body of the \<open>try\<close>.\<close>

definition copy_to_destination ::
  "'s sys \<Rightarrow> 's \<Rightarrow> args \<Rightarrow> path \<Rightarrow> path \<Rightarrow> 's \<times> exn option" where
  "copy_to_destination sys s a source_dir_for_copy destination_skill_dir =
     (case (if exists sys s destination_skill_dir \<and> arg_force a
            then rmtree sys s destination_skill_dir else (s, None)) of
        (s1, Some e) \<Rightarrow> (s1, Some e)
      | (s1, None) \<Rightarrow>
          (case mkdir_parents sys s1 (path_parent destination_skill_dir) of
             (s2, Some e) \<Rightarrow> (s2, Some e)
           | (s2, None) \<Rightarrow> copytree sys s2 source_dir_for_copy destination_skill_dir))"

text \<open>Lines 555 and 556: the \<open>finally\<close>.\<close>

definition cleanup_staging :: "'s sys \<Rightarrow> 's \<Rightarrow> path option \<Rightarrow> 's" where
  "cleanup_staging sys s staged_temp_dir =
     (case staged_temp_dir of
        None \<Rightarrow> s
      | Some d \<Rightarrow> if exists sys s d then rmtree_ignore_errors sys s d else s)"

text \<open>Lines 577 to 583: the effective entry of the forked name in a registry built afresh.\<close>

definition refreshed_effective ::
  "'s sys \<Rightarrow> 's \<Rightarrow> path \<Rightarrow> path list \<Rightarrow> string list \<Rightarrow> string list \<Rightarrow> string
     \<Rightarrow> exn + SkillEntry option" where
  "refreshed_effective sys s cwd configured_roots packs disabled skill_name =
     (case discover_skill_roots sys s cwd configured_roots of
        Inl e \<Rightarrow> Inl e
      | Inr refreshed_roots \<Rightarrow>
          Inr (foldl (\<lambda>refreshed_loaded disabled_name. refreshed_loaded(disabled_name := None))
                 (fst (load_registry sys s refreshed_roots packs)) disabled skill_name))"

definition active :: "'s sys \<Rightarrow> 's \<Rightarrow> SkillEntry option \<Rightarrow> path \<Rightarrow> bool" where
  "active sys s effective destination_skill_dir =
     (case effective of
        None \<Rightarrow> False
      | Some e \<Rightarrow> resolve sys s (base_dir e) = resolve sys s destination_skill_dir)"

text \<open>Lines 577 to 616.\<close>

definition confirm_active ::
  "'s sys \<Rightarrow> 's \<Rightarrow> args \<Rightarrow> string \<Rightarrow> path \<Rightarrow> path list \<Rightarrow> string list \<Rightarrow> string list \<Rightarrow> path
     \<Rightarrow> string list \<Rightarrow> outcome" where
  "confirm_active sys s a skill_name cwd configured_roots packs disabled destination_skill_dir out =
     (case refreshed_effective sys s cwd configured_roots packs disabled skill_name of
        Inl e \<Rightarrow> Raised e
      | Inr effective \<Rightarrow>
          if active sys s effective destination_skill_dir then
            Return 0 (out @ [''Active override confirmed:'', ''Skill fork completed.''])
          else if \<not> arg_allow_inactive a then
            Return 2 (out @ [''Fork created, but it is not currently the effective skill.''])
          else
            Return 0 (out @ [''Fork created, but it is not currently the effective skill.'',
                             ''Skill fork completed.'']))"

text \<open>Lines 537 to 616: everything after the dry-run gate.\<close>

definition materialize ::
  "'s sys \<Rightarrow> 's \<Rightarrow> args \<Rightarrow> string \<Rightarrow> path \<Rightarrow> path list \<Rightarrow> string list \<Rightarrow> string list
     \<Rightarrow> SkillEntry \<Rightarrow> path \<Rightarrow> outcome \<times> 's" where
  "materialize sys s a skill_name cwd configured_roots packs disabled source_entry
       destination_skill_dir =
     (case stage_source sys s a source_entry destination_skill_dir of
        (s1, Inl e) \<Rightarrow> (Raised e, s1)
      | (s1, Inr (source_dir_for_copy, staged_temp_dir)) \<Rightarrow>
          (case copy_to_destination sys s1 a source_dir_for_copy destination_skill_dir of
             (s2, Some error) \<Rightarrow>
               (Return 1 [''Error: Failed to copy skill contents: '' @ exn_str error],
                cleanup_staging sys s2 staged_temp_dir)
           | (s2, None) \<Rightarrow>
               (let s3 = cleanup_staging sys s2 staged_temp_dir;
                    destination_skill_md = joinpath destination_skill_dir (Path ''SKILL.md'')
                in
                if \<not> exists sys s3 destination_skill_md then
                  (Return 1 [''Error: Destination SKILL.md missing after copy.''], s3)
                else
                  (case (if \<not> arg_no_metadata a
                         then inject_fork_metadata sys s3 destination_skill_md source_entry
                         else (s3, None)) of
                     (s4, Some error) \<Rightarrow>
                       (Return 1 [''Error: Failed to inject fork metadata: '' @ exn_str error], s4)
                   | (s4, None) \<Rightarrow>
                       (case run_validation sys s4 destination_skill_dir of
                          (valid, message) \<Rightarrow>
                            if \<not> valid then (Return 1 [''Validation failed: '' @ message], s4)
                            else
                              (confirm_active sys s4 a skill_name cwd configured_roots packs
                                 disabled destination_skill_dir [''Validation: '' @ message],
                               s4))))))"

definition main :: "'s sys \<Rightarrow> args \<Rightarrow> 's \<Rightarrow> outcome \<times> 's" where
  "main sys a s =
     (let skill_name = strip (arg_skill_name a) in
      if skill_name = [] then (Return 1 [''Error: skill_name is required.''], s)
      else
        (let cwd = Path_cwd sys in
         case load_skill_settings sys s cwd (arg_config_path a) of
           (packs, configured_roots, disabled, config_files) \<Rightarrow>
             (case discover_skill_roots sys s cwd configured_roots of
                Inl e \<Rightarrow> (Raised e, s)
              | Inr roots \<Rightarrow>
                  (case request_source sys s a skill_name cwd
                          (fst (load_registry sys s roots packs)) of
                     Inl out \<Rightarrow> (out, s)
                   | Inr source_entry \<Rightarrow>
                       (let destination_skill_dir =
                              destination_of sys s a skill_name cwd source_entry
                        in
                        if exists sys s destination_skill_dir \<and> \<not> arg_force a then
                          (Return 1 [''Error: Destination already exists: ''
                                     @ path_str destination_skill_dir,
                                     ''Use --force to overwrite.''], s)
                        else if arg_dry_run a then
                          (Return 0 [''Dry-run complete. No files were written.''], s)
                        else
                          materialize sys s a skill_name cwd configured_roots packs disabled
                            source_entry destination_skill_dir)))))"

section \<open>Specification predicates\<close>

text \<open>
  \<open>wins e all_entries\<close>: \<open>e\<close> occurs in the processing order \<open>all_entries\<close>, no entry of its
  name before it has a higher tier, and every entry of its name after it has a strictly
  lower tier. So \<open>e\<close> has the highest tier of its name and is the last one of that tier.
\<close>

definition wins :: "SkillEntry \<Rightarrow> SkillEntry list \<Rightarrow> bool" where
  "wins e all_entries =
     (\<exists>xs ys. all_entries = xs @ e # ys
        \<and> (\<forall>x\<in>set xs. name x = name e \<longrightarrow> TIER_PRIORITY (tier x) \<le> TIER_PRIORITY (tier e))
        \<and> (\<forall>y\<in>set ys. name y = name e \<longrightarrow> TIER_PRIORITY (tier y) < TIER_PRIORITY (tier e)))"

text \<open>What the loop over the entries maintains between the dictionary and the list.\<close>

definition reg_inv :: "(string \<rightharpoonup> SkillEntry) \<Rightarrow> SkillEntry list \<Rightarrow> bool" where
  "reg_inv loaded all_entries =
     ((\<forall>n. loaded n = None \<longrightarrow> (\<forall>e\<in>set all_entries. name e \<noteq> n)) \<and>
      (\<forall>n e. loaded n = Some e \<longrightarrow> name e = n \<and> wins e all_entries))"

text \<open>
  What Root Discovery maintains: the dictionary sends the text of the \<open>skill_dir\<close> of each
  stored root to the position of that root, it has no other key, and every stored root has a
  ranked provenance.
\<close>

definition roots_inv :: "SkillRoot list \<Rightarrow> (string \<rightharpoonup> nat) \<Rightarrow> bool" where
  "roots_inv roots index_by_skill_dir =
     ((\<forall>k i. index_by_skill_dir k = Some i
          \<longrightarrow> i < length roots \<and> path_str (skill_dir (roots ! i)) = k)
      \<and> (\<forall>i<length roots. index_by_skill_dir (path_str (skill_dir (roots ! i))) = Some i
                            \<and> source (roots ! i) \<noteq> Explicit))"

text \<open>\<open>outranks a b\<close>: provenance \<open>a\<close> has a strictly higher priority than \<open>b\<close>.\<close>

definition outranks :: "source \<Rightarrow> source \<Rightarrow> bool" where
  "outranks a b =
     (case (SOURCE_PRIORITIES a, SOURCE_PRIORITIES b) of
        (Some x, Some y) \<Rightarrow> x > y
      | _ \<Rightarrow> False)"

text \<open>
  The paths that \<open>pathlib\<close> builds: the root is empty, \<open>/\<close> or \<open>//\<close>, and no component is
  empty, is \<open>.\<close> or contains a slash.
\<close>

definition wf_path :: "path \<Rightarrow> bool" where
  "wf_path p =
     ((path_root p = [] \<or> path_root p = ''/'' \<or> path_root p = ''//'')
      \<and> (\<forall>c\<in>set (parts p). c \<noteq> [] \<and> c \<noteq> ''.'' \<and> CHR ''/'' \<notin> set c))"


text \<open>
  The fork is active: the forked name is not disabled, the registry built from the given
  roots holds an entry for it, and the resolved content directory of that entry is the
  resolved destination.
\<close>

definition fork_is_active ::
  "'s sys \<Rightarrow> 's \<Rightarrow> SkillRoot list \<Rightarrow> string list \<Rightarrow> string list \<Rightarrow> string \<Rightarrow> path \<Rightarrow> bool" where
  "fork_is_active sys s refreshed_roots packs disabled skill_name destination_skill_dir =
     (skill_name \<notin> set disabled
      \<and> (case fst (load_registry sys s refreshed_roots packs) skill_name of
            None \<Rightarrow> False
          | Some effective \<Rightarrow>
              resolve sys s (base_dir effective) = resolve sys s destination_skill_dir))"


section \<open>A small concrete environment\<close>

text \<open>
  A filesystem of text files without links: a directory exists when a file lies below it.
  The definitions are evaluated on it.
\<close>

type_synonym toyfs = "(path \<times> string) list"

definition under :: "path \<Rightarrow> path \<Rightarrow> bool" where
  "under p q = (path_root q = path_root p \<and> length (parts p) < length (parts q)
                \<and> take (length (parts p)) (parts q) = parts p)"

definition toy_read :: "toyfs \<Rightarrow> path \<Rightarrow> exn + string" where
  "toy_read fs p = (case map_of fs p of None \<Rightarrow> Inl (OSError ''No such file'') | Some t \<Rightarrow> Inr t)"

definition toy_is_dir :: "toyfs \<Rightarrow> path \<Rightarrow> bool" where
  "toy_is_dir fs p = list_ex (\<lambda>f. under p (fst f)) fs"

definition toy_is_file :: "toyfs \<Rightarrow> path \<Rightarrow> bool" where
  "toy_is_file fs p = list_ex (\<lambda>f. fst f = p) fs"

definition toy_iterdir :: "toyfs \<Rightarrow> path \<Rightarrow> path list" where
  "toy_iterdir fs p =
     remdups (map (\<lambda>f. PurePath (path_root p) (take (Suc (length (parts p))) (parts (fst f))))
                (filter (\<lambda>f. under p (fst f)) fs))"

definition toy_rglob :: "toyfs \<Rightarrow> path \<Rightarrow> string \<Rightarrow> path list" where
  "toy_rglob fs p nm = map fst (filter (\<lambda>f. under p (fst f) \<and> path_name (fst f) = nm) fs)"

definition toy_copytree :: "toyfs \<Rightarrow> path \<Rightarrow> path \<Rightarrow> toyfs \<times> exn option" where
  "toy_copytree fs src dst =
     (if toy_is_dir fs dst \<or> toy_is_file fs dst then (fs, Some (OSError ''File exists''))
      else (fs @ map (\<lambda>f. (PurePath (path_root dst)
                             (parts dst @ drop (length (parts src)) (parts (fst f))), snd f))
                   (filter (\<lambda>f. under src (fst f)) fs), None))"

fun toy_update :: "path \<Rightarrow> string \<Rightarrow> toyfs \<Rightarrow> toyfs" where
  "toy_update p t [] = [(p, t)]"
| "toy_update p t (f # fs) = (if fst f = p then (p, t) # fs else f # toy_update p t fs)"

definition toy_safe_load :: "string \<Rightarrow> string + yaml" where
  "toy_safe_load t =
     (if startswith t ''name: '' then Inr (YDict [(YStr ''name'', YStr (drop 6 t))])
      else Inl ''could not parse'')"

definition toy :: "toyfs sys" where
  "toy = \<lparr>Path_home = Path ''/home/u'',
          Path_cwd = Path ''/w'',
          module_file = Path ''/opt/tool/skills/packs/skill-creator/scripts/fork_skill.py'',
          executable = Path ''/usr/bin/python3'',
          environ_get = (\<lambda>k. if k = ''USER'' then ''u'' else []),
          resolve = (\<lambda>fs p. p),
          is_dir = toy_is_dir,
          is_file = toy_is_file,
          exists = (\<lambda>fs p. toy_is_dir fs p \<or> toy_is_file fs p),
          iterdir = toy_iterdir,
          rglob = toy_rglob,
          read_decoded = toy_read,
          write_text = (\<lambda>fs p t. (toy_update p t fs, None)),
          mkdtemp = (\<lambda>fs prefix. (fs, Inr (Path (''/tmp/'' @ prefix @ ''0'')))),
          copytree = toy_copytree,
          rmtree = (\<lambda>fs p. (filter (\<lambda>f. \<not> under p (fst f)) fs, None)),
          rmtree_ignore_errors = (\<lambda>fs p. filter (\<lambda>f. \<not> under p (fst f)) fs),
          mkdir_parents = (\<lambda>fs p. (fs, None)),
          safe_load = toy_safe_load,
          safe_dump = (\<lambda>y. Inl (Exception ''cannot represent'')),
          validate_skill = None,
          json_loads = (\<lambda>t. Inl (Exception ''Expecting value'')),
          utcnow_stamp = ''2024-01-01T00:00:00Z''\<rparr>"

definition header_named :: "string \<Rightarrow> string" where
  "header_named n = ''---'' @ [CHR 0x0A] @ ''name: '' @ n @ [CHR 0x0A] @ ''---'' @ [CHR 0x0A]"

definition toy_files :: toyfs where
  "toy_files =
     [(Path ''/opt/tool/skills/base/foo/SKILL.md'', header_named ''foo''),
      (Path ''/opt/tool/skills/packs/react/foo/SKILL.md'', header_named ''foo''),
      (Path ''/opt/tool/skills/packs/vue/foo/SKILL.md'', header_named ''foo''),
      (Path ''/w/.brewva/skills/base/foo/SKILL.md'', header_named ''foo'')]"

definition toy_roots :: "SkillRoot list" where
  "toy_roots =
     [\<lparr>root_dir = Path ''/opt/tool'', skill_dir = Path ''/opt/tool/skills'',
       source = Module_ancestor\<rparr>,
      \<lparr>root_dir = Path ''/w/.brewva'', skill_dir = Path ''/w/.brewva/skills'',
       source = Project_root\<rparr>]"

definition toy_entry :: "string \<Rightarrow> tier \<Rightarrow> string \<Rightarrow> SkillRoot \<Rightarrow> SkillEntry" where
  "toy_entry n tier' dir root' =
     \<lparr>name = n, tier = tier', file_path = Path (dir @ ''/SKILL.md''), base_dir = Path dir,
      root = root'\<rparr>"

definition toy_malformed :: string where
  "toy_malformed =
     ''---'' @ [CHR 0x0A] @ ''name ['' @ [CHR 0x0A] @ ''---'' @ [CHR 0x0A] @ ''body''"

definition toy_args :: args where
  "toy_args = \<lparr>arg_skill_name = ''foo'', arg_source_path = None, arg_target_path = None,
               arg_tier = None, arg_config_path = None, arg_force = False, arg_dry_run = False,
               arg_no_metadata = True, arg_allow_inactive = False\<rparr>"


definition toy_forked_files :: toyfs where
  "toy_forked_files =
     toy_files @ [(Path ''/w/.brewva/skills/project/foo/SKILL.md'', header_named ''foo'')]"

definition toy_denied :: "toyfs sys" where
  "toy_denied = toy\<lparr>copytree := (\<lambda>fs src dst. (fs, Some (OSError ''Permission denied'')))\<rparr>"

definition toy_self_files :: toyfs where
  "toy_self_files = [(Path ''/w/.brewva/skills/base/foo/SKILL.md'', header_named ''foo'')]"




definition plain_char :: "char \<Rightarrow> bool" where
  "plain_char c = (c \<noteq> CHR '','' \<and> c \<noteq> CHR ''}'')"

fun toy_flow_value :: "nat \<Rightarrow> string \<Rightarrow> (yaml \<times> string) option"
  and toy_flow_items :: "nat \<Rightarrow> string \<Rightarrow> (yaml \<times> yaml) list \<Rightarrow> ((yaml \<times> yaml) list \<times> string) option"
where
  "toy_flow_value 0 t = None"
| "toy_flow_value (Suc n) t =
     (if startswith t ''{'' then
        (case toy_flow_items n (drop 1 t) [] of
           None \<Rightarrow> None
         | Some (m, rest) \<Rightarrow> Some (YDict m, rest))
      else Some (YStr (takeWhile plain_char t), dropWhile plain_char t))"
| "toy_flow_items 0 t acc = None"
| "toy_flow_items (Suc n) t acc =
     (if startswith t ''}'' then Some (acc, drop 1 t)
      else
        (let key = takeWhile (\<lambda>c. c \<noteq> CHR '':'') t in
         if startswith (drop (length key) t) '': '' then
           (case toy_flow_value n (drop (length key + 2) t) of
              None \<Rightarrow> None
            | Some (v, rest) \<Rightarrow>
                if startswith rest '', '' then toy_flow_items n (drop 2 rest) (acc @ [(YStr key, v)])
                else None)
         else None))"









section \<open>The Registry Builder: which entry is effective\<close>

lemma merge_entries_append:
  "merge_entries (xs @ ys) acc = merge_entries ys (merge_entries xs acc)"
  by (induction xs acc rule: merge_entries.induct) (auto split: option.splits)

lemma merge_entries_snd: "snd (merge_entries es (l, a)) = a @ es"
  by (induction es "(l, a)" arbitrary: l a rule: merge_entries.induct) (auto split: option.splits)

lemma load_registry_loop_merge:
  "load_registry_loop sys s aps roots acc =
     merge_entries (concat (map (tier_entries sys s aps) roots)) acc"
  by (induction roots arbitrary: acc) (auto simp: merge_entries_append)

lemma reg_inv_empty: "reg_inv Map.empty []"
  by (simp add: reg_inv_def)

lemma wins_snoc_lower:
  assumes "wins x a" "name e = name x \<longrightarrow> TIER_PRIORITY (tier e) < TIER_PRIORITY (tier x)"
  shows "wins x (a @ [e])"
proof -
  from assms(1) obtain xs ys where d: "a = xs @ x # ys"
    "\<forall>z\<in>set xs. name z = name x \<longrightarrow> TIER_PRIORITY (tier z) \<le> TIER_PRIORITY (tier x)"
    "\<forall>z\<in>set ys. name z = name x \<longrightarrow> TIER_PRIORITY (tier z) < TIER_PRIORITY (tier x)"
    unfolding wins_def by blast
  have "a @ [e] = xs @ x # (ys @ [e])" using d(1) by simp
  moreover have "\<forall>z\<in>set (ys @ [e]). name z = name x \<longrightarrow> TIER_PRIORITY (tier z) < TIER_PRIORITY (tier x)"
    using d(3) assms(2) by auto
  ultimately show ?thesis unfolding wins_def using d(2) by blast
qed

lemma wins_le:
  assumes "wins x a" "z \<in> set a" "name z = name x"
  shows "TIER_PRIORITY (tier z) \<le> TIER_PRIORITY (tier x)"
proof -
  from assms(1) obtain xs ys where d: "a = xs @ x # ys"
    "\<forall>z\<in>set xs. name z = name x \<longrightarrow> TIER_PRIORITY (tier z) \<le> TIER_PRIORITY (tier x)"
    "\<forall>z\<in>set ys. name z = name x \<longrightarrow> TIER_PRIORITY (tier z) < TIER_PRIORITY (tier x)"
    unfolding wins_def by blast
  from assms(2) d(1) have "z \<in> set xs \<or> z = x \<or> z \<in> set ys" by auto
  then show ?thesis using d(2,3) assms(3) by (auto simp: less_imp_le)
qed

lemma wins_snoc_new:
  assumes "\<forall>z\<in>set a. name z = name e \<longrightarrow> TIER_PRIORITY (tier z) \<le> TIER_PRIORITY (tier e)"
  shows "wins e (a @ [e])"
proof -
  have "a @ [e] = a @ e # []" by simp
  then show ?thesis unfolding wins_def using assms by (intro exI[of _ a] exI[of _ "[]"]) simp
qed

lemma reg_inv_keep:
  assumes "reg_inv l a" "l (name e) = Some x" "TIER_PRIORITY (tier e) < TIER_PRIORITY (tier x)"
  shows "reg_inv l (a @ [e])"
proof -
  have "\<And>n. l n = None \<Longrightarrow> \<forall>z\<in>set (a @ [e]). name z \<noteq> n"
    using assms(1,2) by (auto simp: reg_inv_def)
  moreover have "\<And>n y. l n = Some y \<Longrightarrow> name y = n \<and> wins y (a @ [e])"
  proof -
    fix n y assume h: "l n = Some y"
    with assms(1) have y: "name y = n" "wins y a" by (auto simp: reg_inv_def)
    have "name e = name y \<longrightarrow> TIER_PRIORITY (tier e) < TIER_PRIORITY (tier y)"
      using h y(1) assms(2,3) by auto
    with y show "name y = n \<and> wins y (a @ [e])" by (simp add: wins_snoc_lower)
  qed
  ultimately show ?thesis unfolding reg_inv_def by blast
qed

lemma reg_inv_install:
  assumes "reg_inv l a"
    "l (name e) = None \<or> (\<exists>x. l (name e) = Some x \<and> TIER_PRIORITY (tier x) \<le> TIER_PRIORITY (tier e))"
  shows "reg_inv (l(name e \<mapsto> e)) (a @ [e])"
proof -
  have top: "\<forall>z\<in>set a. name z = name e \<longrightarrow> TIER_PRIORITY (tier z) \<le> TIER_PRIORITY (tier e)"
  proof (intro ballI impI)
    fix z assume z: "z \<in> set a" "name z = name e"
    from assms(2) show "TIER_PRIORITY (tier z) \<le> TIER_PRIORITY (tier e)"
    proof
      assume "l (name e) = None"
      with assms(1) z show ?thesis by (auto simp: reg_inv_def)
    next
      assume "\<exists>x. l (name e) = Some x \<and> TIER_PRIORITY (tier x) \<le> TIER_PRIORITY (tier e)"
      then obtain x where x: "l (name e) = Some x" "TIER_PRIORITY (tier x) \<le> TIER_PRIORITY (tier e)"
        by blast
      with assms(1) have "name x = name e" "wins x a" by (auto simp: reg_inv_def)
      with z have "TIER_PRIORITY (tier z) \<le> TIER_PRIORITY (tier x)" by (simp add: wins_le)
      with x(2) show ?thesis by simp
    qed
  qed
  have "\<And>n. (l(name e \<mapsto> e)) n = None \<Longrightarrow> \<forall>z\<in>set (a @ [e]). name z \<noteq> n"
    using assms(1) by (auto simp: reg_inv_def split: if_splits)
  moreover have "\<And>n y. (l(name e \<mapsto> e)) n = Some y \<Longrightarrow> name y = n \<and> wins y (a @ [e])"
  proof -
    fix n y assume h: "(l(name e \<mapsto> e)) n = Some y"
    show "name y = n \<and> wins y (a @ [e])"
    proof (cases "n = name e")
      case True
      with h have "y = e" by simp
      with True top show ?thesis by (simp add: wins_snoc_new)
    next
      case False
      with h have "l n = Some y" by simp
      with assms(1) have y: "name y = n" "wins y a" by (auto simp: reg_inv_def)
      with False have "name e \<noteq> name y" by simp
      with y show ?thesis by (simp add: wins_snoc_lower)
    qed
  qed
  ultimately show ?thesis unfolding reg_inv_def by blast
qed

lemma merge_entries_inv:
  "reg_inv l a \<Longrightarrow> reg_inv (fst (merge_entries es (l, a))) (snd (merge_entries es (l, a)))"
proof (induction es arbitrary: l a)
  case Nil
  then show ?case by simp
next
  case (Cons e es)
  show ?case
  proof (cases "l (name e)")
    case None
    with Cons.prems have inv: "reg_inv (l(name e \<mapsto> e)) (a @ [e])" by (simp add: reg_inv_install)
    have step: "merge_entries (e # es) (l, a) = merge_entries es (l(name e \<mapsto> e), a @ [e])"
      using None by simp
    show ?thesis unfolding step by (rule Cons.IH[OF inv])
  next
    case (Some x)
    show ?thesis
    proof (cases "TIER_PRIORITY (tier x) \<le> TIER_PRIORITY (tier e)")
      case True
      with Some Cons.prems have inv: "reg_inv (l(name e \<mapsto> e)) (a @ [e])"
        by (simp add: reg_inv_install)
      have step: "merge_entries (e # es) (l, a) = merge_entries es (l(name e \<mapsto> e), a @ [e])"
        using Some True by simp
      show ?thesis unfolding step by (rule Cons.IH[OF inv])
    next
      case False
      with Some Cons.prems have inv: "reg_inv l (a @ [e])" by (simp add: reg_inv_keep)
      have step: "merge_entries (e # es) (l, a) = merge_entries es (l, a @ [e])"
        using Some False by simp
      show ?thesis unfolding step by (rule Cons.IH[OF inv])
    qed
  qed
qed

lemma load_registry_inv:
  "reg_inv (fst (load_registry sys s roots active_packs)) (snd (load_registry sys s roots active_packs))"
  unfolding load_registry_def load_registry_loop_merge
  by (rule merge_entries_inv[OF reg_inv_empty])

lemma load_registry_all:
  "snd (load_registry sys s roots active_packs) = concat (map (tier_entries sys s (set active_packs)) roots)"
  unfolding load_registry_def load_registry_loop_merge by (simp add: merge_entries_snd)

text \<open>
  C1. Whatever the roots, the list of all entries is the entries of each root in turn
  (roots in the given order; within a root base, then the packs, then project), and the
  entry the registry holds for a name is one of that name with the highest tier priority
  among all entries of the name, the last such in that order: no entry of the name is
  of a higher tier, and every later entry of the name is of a strictly lower tier. A name
  has no effective entry only when no entry carries it.
\<close>

theorem load_registry_effective:
  "snd (load_registry sys s roots active_packs)
     = concat (map (tier_entries sys s (set active_packs)) roots)
   \<and> (fst (load_registry sys s roots active_packs) n = None
        \<longrightarrow> (\<forall>e\<in>set (snd (load_registry sys s roots active_packs)). name e \<noteq> n))
   \<and> (\<forall>e. fst (load_registry sys s roots active_packs) n = Some e
        \<longrightarrow> name e = n
            \<and> wins e (snd (load_registry sys s roots active_packs))
            \<and> (\<forall>z\<in>set (snd (load_registry sys s roots active_packs)).
                  name z = n \<longrightarrow> TIER_PRIORITY (tier z) \<le> TIER_PRIORITY (tier e)))"
proof -
  let ?l = "fst (load_registry sys s roots active_packs)"
  let ?a = "snd (load_registry sys s roots active_packs)"
  have inv: "reg_inv ?l ?a" by (rule load_registry_inv)
  have none: "?l n = None \<longrightarrow> (\<forall>e\<in>set ?a. name e \<noteq> n)"
    using inv unfolding reg_inv_def by blast
  have some: "\<forall>e. ?l n = Some e \<longrightarrow> name e = n \<and> wins e ?a
                \<and> (\<forall>z\<in>set ?a. name z = n \<longrightarrow> TIER_PRIORITY (tier z) \<le> TIER_PRIORITY (tier e))"
  proof (intro allI impI)
    fix e assume "?l n = Some e"
    with inv have e: "name e = n" "wins e ?a" unfolding reg_inv_def by blast+
    have "\<forall>z\<in>set ?a. name z = n \<longrightarrow> TIER_PRIORITY (tier z) \<le> TIER_PRIORITY (tier e)"
      using wins_le[OF e(2)] e(1) by simp
    with e show "name e = n \<and> wins e ?a
                \<and> (\<forall>z\<in>set ?a. name z = n \<longrightarrow> TIER_PRIORITY (tier z) \<le> TIER_PRIORITY (tier e))"
      by blast
  qed
  show ?thesis by (rule conjI[OF load_registry_all conjI[OF none some]])
qed

theorem load_registry_effective_witness:
  "fst (load_registry toy toy_files toy_roots [''react'']) ''foo''
     = Some (toy_entry ''foo'' Pack ''/opt/tool/skills/packs/react/foo'' (toy_roots ! 0))
   \<and> snd (load_registry toy toy_files toy_roots [''react''])
     = [toy_entry ''foo'' Base ''/opt/tool/skills/base/foo'' (toy_roots ! 0),
        toy_entry ''foo'' Pack ''/opt/tool/skills/packs/react/foo'' (toy_roots ! 0),
        toy_entry ''foo'' Base ''/w/.brewva/skills/base/foo'' (toy_roots ! 1)]
   \<and> wins (toy_entry ''foo'' Pack ''/opt/tool/skills/packs/react/foo'' (toy_roots ! 0))
        (snd (load_registry toy toy_files toy_roots [''react'']))"
proof -
  let ?E = "toy_entry ''foo'' Pack ''/opt/tool/skills/packs/react/foo'' (toy_roots ! 0)"
  let ?L = "load_registry toy toy_files toy_roots [''react'']"
  have h: "fst ?L ''foo'' = Some ?E"
    by code_simp
  have a: "snd ?L
     = [toy_entry ''foo'' Base ''/opt/tool/skills/base/foo'' (toy_roots ! 0),
        toy_entry ''foo'' Pack ''/opt/tool/skills/packs/react/foo'' (toy_roots ! 0),
        toy_entry ''foo'' Base ''/w/.brewva/skills/base/foo'' (toy_roots ! 1)]"
    by code_simp
  have "\<forall>e. fst ?L ''foo'' = Some e \<longrightarrow> name e = ''foo'' \<and> wins e (snd ?L)
            \<and> (\<forall>z\<in>set (snd ?L). name z = ''foo'' \<longrightarrow> TIER_PRIORITY (tier z) \<le> TIER_PRIORITY (tier e))"
    using load_registry_effective[of toy toy_files toy_roots "[''react'']" "''foo''"]
    by (rule conjunct2[OF conjunct2])
  then have "fst ?L ''foo'' = Some ?E \<longrightarrow> name ?E = ''foo'' \<and> wins ?E (snd ?L)
            \<and> (\<forall>z\<in>set (snd ?L). name z = ''foo'' \<longrightarrow> TIER_PRIORITY (tier z) \<le> TIER_PRIORITY (tier ?E))"
    by (rule spec)
  then have "name ?E = ''foo'' \<and> wins ?E (snd ?L)
            \<and> (\<forall>z\<in>set (snd ?L). name z = ''foo'' \<longrightarrow> TIER_PRIORITY (tier z) \<le> TIER_PRIORITY (tier ?E))"
    using h by (rule mp)
  then have w: "wins ?E (snd ?L)"
    by (rule conjunct1[OF conjunct2])
  show ?thesis by (rule conjI[OF h conjI[OF a w]])
qed

section \<open>The Registry Builder: which tiers and packs are loaded\<close>

lemma extend_packs_filter:
  "extend_packs sys s aps inc r ds te =
     te @ concat (map (\<lambda>d. load_tier_entries sys s d Pack r)
                    (filter (\<lambda>d. is_dir sys s d \<and> (inc \<or> path_name d \<in> aps)) ds))"
  by (induction ds arbitrary: te) auto

text \<open>
  C6. For every root, the entries loaded are those of the base tier, then those of the pack
  directories, then those of the project tier; base and project are loaded whatever the
  active packs are. The pack directories are visited in sorted order, and the entries of a
  pack directory are loaded exactly when it is a directory and its name is an active pack or
  the provenance of the root is \<open>project_root\<close> or \<open>config_root\<close>. The registry lists the
  entries of the roots in the order of the roots.
\<close>

theorem tier_entries_packs:
  "tier_entries sys s (set active_packs) root' =
     load_tier_entries sys s (joinpath (skill_dir root') (Path ''base'')) Base root'
     @ (if is_dir sys s (joinpath (skill_dir root') (Path ''packs'')) then
          concat (map (\<lambda>pack_dir. load_tier_entries sys s pack_dir Pack root')
            (filter (\<lambda>pack_dir. is_dir sys s pack_dir
                       \<and> (path_name pack_dir \<in> set active_packs
                           \<or> source root' = Project_root \<or> source root' = Config_root))
               (sorted_paths (iterdir sys s (joinpath (skill_dir root') (Path ''packs''))))))
        else [])
     @ load_tier_entries sys s (joinpath (skill_dir root') (Path ''project'')) Project root'
   \<and> sorted (map path_key (sorted_paths (iterdir sys s (joinpath (skill_dir root') (Path ''packs'')))))
   \<and> snd (load_registry sys s roots active_packs)
       = concat (map (tier_entries sys s (set active_packs)) roots)"
proof -
  have f: "(\<lambda>d. is_dir sys s d \<and> (source root' \<in> {Project_root, Config_root} \<or> path_name d \<in> set active_packs))
         = (\<lambda>pack_dir. is_dir sys s pack_dir
                       \<and> (path_name pack_dir \<in> set active_packs
                           \<or> source root' = Project_root \<or> source root' = Config_root))"
    by auto
  have 1: "tier_entries sys s (set active_packs) root' =
     load_tier_entries sys s (joinpath (skill_dir root') (Path ''base'')) Base root'
     @ (if is_dir sys s (joinpath (skill_dir root') (Path ''packs'')) then
          concat (map (\<lambda>pack_dir. load_tier_entries sys s pack_dir Pack root')
            (filter (\<lambda>pack_dir. is_dir sys s pack_dir
                       \<and> (path_name pack_dir \<in> set active_packs
                           \<or> source root' = Project_root \<or> source root' = Config_root))
               (sorted_paths (iterdir sys s (joinpath (skill_dir root') (Path ''packs''))))))
        else [])
     @ load_tier_entries sys s (joinpath (skill_dir root') (Path ''project'')) Project root'"
    unfolding tier_entries_def Let_def extend_packs_filter f by simp
  have 2: "sorted (map path_key (sorted_paths (iterdir sys s (joinpath (skill_dir root') (Path ''packs'')))))"
    unfolding sorted_paths_def by (rule sorted_sort_key)
  show ?thesis by (rule conjI[OF 1 conjI[OF 2 load_registry_all]])
qed

theorem tier_entries_packs_witness:
  "tier_entries toy toy_files (set [''react'']) (toy_roots ! 0)
     = [toy_entry ''foo'' Base ''/opt/tool/skills/base/foo'' (toy_roots ! 0),
        toy_entry ''foo'' Pack ''/opt/tool/skills/packs/react/foo'' (toy_roots ! 0)]"
proof -
  have "load_tier_entries toy toy_files (joinpath (skill_dir (toy_roots ! 0)) (Path ''base'')) Base (toy_roots ! 0)
     @ (if is_dir toy toy_files (joinpath (skill_dir (toy_roots ! 0)) (Path ''packs'')) then
          concat (map (\<lambda>pack_dir. load_tier_entries toy toy_files pack_dir Pack (toy_roots ! 0))
            (filter (\<lambda>pack_dir. is_dir toy toy_files pack_dir
                       \<and> (path_name pack_dir \<in> set [''react'']
                           \<or> source (toy_roots ! 0) = Project_root \<or> source (toy_roots ! 0) = Config_root))
               (sorted_paths (iterdir toy toy_files (joinpath (skill_dir (toy_roots ! 0)) (Path ''packs''))))))
        else [])
     @ load_tier_entries toy toy_files (joinpath (skill_dir (toy_roots ! 0)) (Path ''project'')) Project (toy_roots ! 0)
   = [toy_entry ''foo'' Base ''/opt/tool/skills/base/foo'' (toy_roots ! 0),
        toy_entry ''foo'' Pack ''/opt/tool/skills/packs/react/foo'' (toy_roots ! 0)]"
    by code_simp
  with tier_entries_packs[of toy toy_files "[''react'']" "toy_roots ! 0" "[]", THEN conjunct1]
  show ?thesis by (rule trans)
qed

section \<open>Root Discovery: one root for each skill directory\<close>

lemma priority_ranked: "src \<noteq> Explicit \<Longrightarrow> \<exists>p. SOURCE_PRIORITIES src = Some p"
  by (cases src) simp_all

lemma roots_inv_empty: "roots_inv [] Map.empty"
  by (simp add: roots_inv_def)

lemma roots_inv_key:
  "roots_inv roots idx \<Longrightarrow> idx k = Some i \<Longrightarrow> i < length roots \<and> path_str (skill_dir (roots ! i)) = k"
  unfolding roots_inv_def by blast

lemma roots_inv_nth:
  "roots_inv roots idx \<Longrightarrow> i < length roots \<Longrightarrow>
     idx (path_str (skill_dir (roots ! i))) = Some i \<and> source (roots ! i) \<noteq> Explicit"
  unfolding roots_inv_def by blast

lemma roots_invI:
  assumes "\<And>k i. idx k = Some i \<Longrightarrow> i < length roots \<and> path_str (skill_dir (roots ! i)) = k"
    and "\<And>i. i < length roots \<Longrightarrow>
           idx (path_str (skill_dir (roots ! i))) = Some i \<and> source (roots ! i) \<noteq> Explicit"
  shows "roots_inv roots idx"
  unfolding roots_inv_def using assms by blast

lemma roots_inv_distinct:
  assumes "roots_inv roots idx"
  shows "distinct (map (\<lambda>r. path_str (skill_dir r)) roots)"
proof -
  have "\<And>i j. i < length roots \<Longrightarrow> j < length roots \<Longrightarrow>
          path_str (skill_dir (roots ! i)) = path_str (skill_dir (roots ! j)) \<Longrightarrow> i = j"
  proof -
    fix i j assume h: "i < length roots" "j < length roots"
      "path_str (skill_dir (roots ! i)) = path_str (skill_dir (roots ! j))"
    have "idx (path_str (skill_dir (roots ! i))) = Some i"
      using roots_inv_nth[OF assms h(1)] by (rule conjunct1)
    moreover have "idx (path_str (skill_dir (roots ! j))) = Some j"
      using roots_inv_nth[OF assms h(2)] by (rule conjunct1)
    ultimately have "Some i = Some j" using h(3) by metis
    then show "i = j" by simp
  qed
  then have "\<forall>i<length roots. \<forall>j<length roots. i \<noteq> j \<longrightarrow>
          path_str (skill_dir (roots ! i)) \<noteq> path_str (skill_dir (roots ! j))"
    by blast
  then show ?thesis by (simp add: distinct_conv_nth)
qed

lemma roots_inv_append:
  assumes "roots_inv roots idx" "idx (path_str sd) = None" "src \<noteq> Explicit"
  shows "roots_inv (roots @ [\<lparr>root_dir = rd, skill_dir = sd, source = src\<rparr>])
           (idx(path_str sd \<mapsto> length roots))"
proof (rule roots_invI)
  let ?r = "\<lparr>root_dir = rd, skill_dir = sd, source = src\<rparr>"
  fix k i assume h: "(idx(path_str sd \<mapsto> length roots)) k = Some i"
  show "i < length (roots @ [?r]) \<and> path_str (skill_dir ((roots @ [?r]) ! i)) = k"
  proof (cases "k = path_str sd")
    case True
    with h have "i = length roots" by simp
    with True show ?thesis by simp
  next
    case False
    with h have "idx k = Some i" by simp
    from roots_inv_key[OF assms(1) this]
    have "i < length roots" "path_str (skill_dir (roots ! i)) = k" by blast+
    then show ?thesis by (simp add: nth_append)
  qed
next
  let ?r = "\<lparr>root_dir = rd, skill_dir = sd, source = src\<rparr>"
  fix i assume h: "i < length (roots @ [?r])"
  show "(idx(path_str sd \<mapsto> length roots)) (path_str (skill_dir ((roots @ [?r]) ! i))) = Some i
           \<and> source ((roots @ [?r]) ! i) \<noteq> Explicit"
  proof (cases "i < length roots")
    case True
    from roots_inv_nth[OF assms(1) True]
    have o: "idx (path_str (skill_dir (roots ! i))) = Some i" "source (roots ! i) \<noteq> Explicit"
      by blast+
    with assms(2) have "path_str (skill_dir (roots ! i)) \<noteq> path_str sd" by auto
    with o True show ?thesis by (simp add: nth_append)
  next
    case False
    with h have "i = length roots" by simp
    with assms(3) show ?thesis by simp
  qed
qed

lemma roots_inv_update:
  assumes "roots_inv roots idx" "j < length roots" "src \<noteq> Explicit"
  shows "roots_inv (roots[j := \<lparr>root_dir = rd, skill_dir = skill_dir (roots ! j), source = src\<rparr>]) idx"
proof (rule roots_invI)
  let ?r = "\<lparr>root_dir = rd, skill_dir = skill_dir (roots ! j), source = src\<rparr>"
  fix k i assume h: "idx k = Some i"
  from roots_inv_key[OF assms(1) this]
  have o: "i < length roots" "path_str (skill_dir (roots ! i)) = k" by blast+
  have "skill_dir (roots[j := ?r] ! i) = skill_dir (roots ! i)"
    using o(1) by (cases "i = j") simp_all
  with o show "i < length (roots[j := ?r]) \<and> path_str (skill_dir (roots[j := ?r] ! i)) = k"
    by simp
next
  let ?r = "\<lparr>root_dir = rd, skill_dir = skill_dir (roots ! j), source = src\<rparr>"
  fix i assume "i < length (roots[j := ?r])"
  then have i: "i < length roots" by simp
  from roots_inv_nth[OF assms(1) i]
  have o: "idx (path_str (skill_dir (roots ! i))) = Some i" "source (roots ! i) \<noteq> Explicit"
    by blast+
  have sd: "skill_dir (roots[j := ?r] ! i) = skill_dir (roots ! i)"
    using i by (cases "i = j") simp_all
  have so: "source (roots[j := ?r] ! i) \<noteq> Explicit"
    using i o(2) assms(3) by (cases "i = j") simp_all
  from o(1) sd so show "idx (path_str (skill_dir (roots[j := ?r] ! i))) = Some i
           \<and> source (roots[j := ?r] ! i) \<noteq> Explicit"
    by simp
qed

lemma adr_none:
  "resolve_skill_directory sys s rd = None \<Longrightarrow>
     append_discovered_root sys s roots idx rd src = Inr (roots, idx)"
  by (simp add: append_discovered_root_def)

lemma adr_new:
  "resolve_skill_directory sys s rd = Some sd \<Longrightarrow> idx (path_str (resolve sys s sd)) = None \<Longrightarrow>
     append_discovered_root sys s roots idx rd src =
       Inr (roots @ [\<lparr>root_dir = resolve sys s rd, skill_dir = resolve sys s sd, source = src\<rparr>],
            idx(path_str (resolve sys s sd) \<mapsto> length roots))"
  by (simp add: append_discovered_root_def Let_def)

lemma adr_dup:
  "resolve_skill_directory sys s rd = Some sd \<Longrightarrow> idx (path_str (resolve sys s sd)) = Some i \<Longrightarrow>
   i < length roots \<Longrightarrow> src \<noteq> Explicit \<Longrightarrow> source (roots ! i) \<noteq> Explicit \<Longrightarrow>
     append_discovered_root sys s roots idx rd src =
       Inr (if outranks src (source (roots ! i))
            then roots[i := \<lparr>root_dir = resolve sys s rd, skill_dir = skill_dir (roots ! i),
                             source = src\<rparr>]
            else roots, idx)"
  using priority_ranked[of src] priority_ranked[of "source (roots ! i)"]
  by (auto simp: append_discovered_root_def Let_def outranks_def)

lemma append_discovered_root_inv:
  assumes "roots_inv roots idx" "src \<noteq> Explicit"
  shows "\<exists>roots' idx'. append_discovered_root sys s roots idx rd src = Inr (roots', idx')
           \<and> roots_inv roots' idx'"
proof (cases "resolve_skill_directory sys s rd")
  case None
  from adr_none[OF None] assms(1) show ?thesis by blast
next
  case (Some sd)
  show ?thesis
  proof (cases "idx (path_str (resolve sys s sd))")
    case None
    from roots_inv_append[where rd="resolve sys s rd", OF assms(1) None assms(2)] adr_new[where idx=idx and roots=roots and src=src, OF Some None]
    show ?thesis by blast
  next
    case (Some i)
    from roots_inv_key[OF assms(1) Some] have i: "i < length roots" by blast
    from roots_inv_nth[OF assms(1) i] have e: "source (roots ! i) \<noteq> Explicit" by blast
    note eq = adr_dup[where idx=idx and roots=roots and src=src, OF \<open>resolve_skill_directory sys s rd = Some sd\<close> Some i assms(2) e]
    show ?thesis
    proof (cases "outranks src (source (roots ! i))")
      case True
      with eq have "append_discovered_root sys s roots idx rd src =
         Inr (roots[i := \<lparr>root_dir = resolve sys s rd, skill_dir = skill_dir (roots ! i),
                             source = src\<rparr>], idx)" by simp
      with roots_inv_update[where rd="resolve sys s rd", OF assms(1) i assms(2)] show ?thesis by blast
    next
      case False
      with eq have "append_discovered_root sys s roots idx rd src = Inr (roots, idx)" by simp
      with assms(1) show ?thesis by blast
    qed
  qed
qed

lemma append_all_inv:
  "roots_inv roots idx \<Longrightarrow> \<forall>c\<in>set cands. snd c \<noteq> Explicit \<Longrightarrow>
     \<exists>roots' idx'. append_all sys s cands (roots, idx) = Inr (roots', idx') \<and> roots_inv roots' idx'"
proof (induction cands arbitrary: roots idx)
  case Nil
  then show ?case by simp
next
  case (Cons c cands)
  obtain rd src where c: "c = (rd, src)" by (cases c)
  with Cons.prems(2) have src: "src \<noteq> Explicit" by simp
  from append_discovered_root_inv[where sys=sys and s=s and rd=rd, OF Cons.prems(1) src]
  obtain r1 i1 where s1: "append_discovered_root sys s roots idx rd src = Inr (r1, i1)"
    and inv1: "roots_inv r1 i1" by blast
  from Cons.prems(2) have rest: "\<forall>c\<in>set cands. snd c \<noteq> Explicit" by simp
  from Cons.IH[OF inv1 rest] obtain r2 i2 where
    s2: "append_all sys s cands (r1, i1) = Inr (r2, i2)" and inv2: "roots_inv r2 i2" by blast
  have "append_all sys s (c # cands) (roots, idx) = Inr (r2, i2)"
    using c s1 s2 by simp
  with inv2 show ?case by blast
qed

lemma discovery_candidates_ranked:
  "\<forall>c\<in>set (discovery_candidates sys s cwd configured_roots). snd c \<noteq> Explicit"
  by (auto simp: discovery_candidates_def)

lemma discover_skill_roots_distinct:
  "\<exists>roots. discover_skill_roots sys s cwd configured_roots = Inr roots
      \<and> distinct (map (\<lambda>r. path_str (skill_dir r)) roots)"
proof -
  from append_all_inv[where sys=sys and s=s, OF roots_inv_empty discovery_candidates_ranked[of sys s cwd configured_roots]]
  obtain r i where a: "append_all sys s (discovery_candidates sys s cwd configured_roots)
      ([], Map.empty) = Inr (r, i)" and inv: "roots_inv r i" by blast
  from a have "discover_skill_roots sys s cwd configured_roots = Inr r"
    by (simp add: discover_skill_roots_def)
  with roots_inv_distinct[OF inv] show ?thesis by blast
qed

lemma root_update_eq:
  "\<lparr>root_dir = a, skill_dir = skill_dir r, source = c\<rparr> = r\<lparr>root_dir := a, source := c\<rparr>"
  by (cases r) simp

text \<open>
  C2. Root Discovery always returns, and no two of the roots it returns have the same
  resolved \<open>skill_dir\<close>. Each registration keeps that so: on a list and dictionary as Root
  Discovery maintains them, registering a directory whose \<open>skill_dir\<close> no stored root has
  appends a root; registering one whose \<open>skill_dir\<close> the root at position \<open>i\<close> has replaces
  the \<open>root_dir\<close> and provenance of that root, and not its \<open>skill_dir\<close>, when the new
  provenance has a strictly higher priority, and leaves the list as it is otherwise.
\<close>

theorem append_discovered_root_dedup:
  "(\<exists>found. discover_skill_roots sys s cwd configured_roots = Inr found
       \<and> distinct (map (\<lambda>r. path_str (skill_dir r)) found))
   \<and> (roots_inv roots index_by_skill_dir \<and> source' \<noteq> Explicit \<longrightarrow>
        (\<exists>roots' index'.
           append_discovered_root sys s roots index_by_skill_dir root_dir' source'
             = Inr (roots', index')
           \<and> roots_inv roots' index'
           \<and> distinct (map (\<lambda>r. path_str (skill_dir r)) roots')
           \<and> (resolve_skill_directory sys s root_dir' = None \<longrightarrow> roots' = roots)
           \<and> (\<forall>skill_dir'. resolve_skill_directory sys s root_dir' = Some skill_dir' \<longrightarrow>
                 ((\<forall>r\<in>set roots. path_str (skill_dir r) \<noteq> path_str (resolve sys s skill_dir'))
                    \<longrightarrow> roots' = roots @ [\<lparr>root_dir = resolve sys s root_dir',
                                             skill_dir = resolve sys s skill_dir',
                                             source = source'\<rparr>])
                 \<and> (\<forall>i<length roots.
                       path_str (skill_dir (roots ! i)) = path_str (resolve sys s skill_dir') \<longrightarrow>
                         (outranks source' (source (roots ! i)) \<longrightarrow>
                            roots' = roots[i := (roots ! i)\<lparr>root_dir := resolve sys s root_dir',
                                                         source := source'\<rparr>])
                         \<and> (\<not> outranks source' (source (roots ! i)) \<longrightarrow> roots' = roots)))))"
proof (rule conjI[OF discover_skill_roots_distinct], intro impI)
  assume h: "roots_inv roots index_by_skill_dir \<and> source' \<noteq> Explicit"
  then have inv: "roots_inv roots index_by_skill_dir" and src: "source' \<noteq> Explicit" by blast+
  let ?run = "append_discovered_root sys s roots index_by_skill_dir root_dir' source'"
  from append_discovered_root_inv[where sys=sys and s=s and rd=root_dir', OF inv src]
  obtain roots' index' where run: "?run = Inr (roots', index')" and inv': "roots_inv roots' index'"
    by blast
  have none: "resolve_skill_directory sys s root_dir' = None \<longrightarrow> roots' = roots"
  proof
    assume "resolve_skill_directory sys s root_dir' = None"
    from adr_none[where idx=index_by_skill_dir and roots=roots and src=source', OF this] run
    show "roots' = roots" by simp
  qed
  have some: "\<forall>skill_dir'. resolve_skill_directory sys s root_dir' = Some skill_dir' \<longrightarrow>
                 ((\<forall>r\<in>set roots. path_str (skill_dir r) \<noteq> path_str (resolve sys s skill_dir'))
                    \<longrightarrow> roots' = roots @ [\<lparr>root_dir = resolve sys s root_dir',
                                             skill_dir = resolve sys s skill_dir',
                                             source = source'\<rparr>])
                 \<and> (\<forall>i<length roots.
                       path_str (skill_dir (roots ! i)) = path_str (resolve sys s skill_dir') \<longrightarrow>
                         (outranks source' (source (roots ! i)) \<longrightarrow>
                            roots' = roots[i := (roots ! i)\<lparr>root_dir := resolve sys s root_dir',
                                                         source := source'\<rparr>])
                         \<and> (\<not> outranks source' (source (roots ! i)) \<longrightarrow> roots' = roots))"
  proof (intro allI impI conjI)
    fix sd assume sd: "resolve_skill_directory sys s root_dir' = Some sd"
      and fresh: "\<forall>r\<in>set roots. path_str (skill_dir r) \<noteq> path_str (resolve sys s sd)"
    have "index_by_skill_dir (path_str (resolve sys s sd)) = None"
    proof (cases "index_by_skill_dir (path_str (resolve sys s sd))")
      case None then show ?thesis .
    next
      case (Some i)
      from roots_inv_key[OF inv Some]
      have "i < length roots" "path_str (skill_dir (roots ! i)) = path_str (resolve sys s sd)"
        by blast+
      with fresh have False using nth_mem by blast
      then show ?thesis ..
    qed
    from adr_new[where idx=index_by_skill_dir and roots=roots and src=source', OF sd this] run
    show "roots' = roots @ [\<lparr>root_dir = resolve sys s root_dir', skill_dir = resolve sys s sd,
                              source = source'\<rparr>]" by simp
  next
    fix sd i assume sd: "resolve_skill_directory sys s root_dir' = Some sd"
      and i: "i < length roots"
      and dup: "path_str (skill_dir (roots ! i)) = path_str (resolve sys s sd)"
      and up: "outranks source' (source (roots ! i))"
    from roots_inv_nth[OF inv i] dup
    have k: "index_by_skill_dir (path_str (resolve sys s sd)) = Some i"
      and e: "source (roots ! i) \<noteq> Explicit" by simp_all
    from adr_dup[where idx=index_by_skill_dir and roots=roots and src=source', OF sd k i src e]
      run up
    show "roots' = roots[i := (roots ! i)\<lparr>root_dir := resolve sys s root_dir', source := source'\<rparr>]"
      by (simp add: root_update_eq)
  next
    fix sd i assume sd: "resolve_skill_directory sys s root_dir' = Some sd"
      and i: "i < length roots"
      and dup: "path_str (skill_dir (roots ! i)) = path_str (resolve sys s sd)"
      and up: "\<not> outranks source' (source (roots ! i))"
    from roots_inv_nth[OF inv i] dup
    have k: "index_by_skill_dir (path_str (resolve sys s sd)) = Some i"
      and e: "source (roots ! i) \<noteq> Explicit" by simp_all
    from adr_dup[where idx=index_by_skill_dir and roots=roots and src=source', OF sd k i src e]
      run up
    show "roots' = roots" by simp
  qed
  from run inv' roots_inv_distinct[OF inv'] none some
  show "\<exists>roots' index'.
           ?run = Inr (roots', index')
           \<and> roots_inv roots' index'
           \<and> distinct (map (\<lambda>r. path_str (skill_dir r)) roots')
           \<and> (resolve_skill_directory sys s root_dir' = None \<longrightarrow> roots' = roots)
           \<and> (\<forall>skill_dir'. resolve_skill_directory sys s root_dir' = Some skill_dir' \<longrightarrow>
                 ((\<forall>r\<in>set roots. path_str (skill_dir r) \<noteq> path_str (resolve sys s skill_dir'))
                    \<longrightarrow> roots' = roots @ [\<lparr>root_dir = resolve sys s root_dir',
                                             skill_dir = resolve sys s skill_dir',
                                             source = source'\<rparr>])
                 \<and> (\<forall>i<length roots.
                       path_str (skill_dir (roots ! i)) = path_str (resolve sys s skill_dir') \<longrightarrow>
                         (outranks source' (source (roots ! i)) \<longrightarrow>
                            roots' = roots[i := (roots ! i)\<lparr>root_dir := resolve sys s root_dir',
                                                         source := source'\<rparr>])
                         \<and> (\<not> outranks source' (source (roots ! i)) \<longrightarrow> roots' = roots)))"
    by (intro exI[of _ roots'] exI[of _ index'] conjI)
qed

theorem append_discovered_root_dedup_witness:
  "\<exists>roots' index'.
     append_discovered_root toy toy_files [toy_roots ! 0]
       (Map.empty(path_str (skill_dir (toy_roots ! 0)) \<mapsto> 0)) (Path ''/opt/tool'') Config_root
       = Inr (roots', index')
     \<and> roots' = [\<lparr>root_dir = Path ''/opt/tool'', skill_dir = Path ''/opt/tool/skills'',
                   source = Config_root\<rparr>]
     \<and> distinct (map (\<lambda>r. path_str (skill_dir r)) roots')"
proof -
  let ?r0 = "toy_roots ! 0"
  let ?idx = "Map.empty(path_str (skill_dir ?r0) \<mapsto> (0::nat))"
  have r0: "?r0 = \<lparr>root_dir = Path ''/opt/tool'', skill_dir = Path ''/opt/tool/skills'',
                   source = Module_ancestor\<rparr>"
    by (simp add: toy_roots_def)
  have "roots_inv ([] @ [\<lparr>root_dir = Path ''/opt/tool'', skill_dir = Path ''/opt/tool/skills'',
                   source = Module_ancestor\<rparr>])
          (Map.empty(path_str (Path ''/opt/tool/skills'') \<mapsto> length ([] :: SkillRoot list)))"
    by (rule roots_inv_append[OF roots_inv_empty]) simp_all
  then have inv: "roots_inv [?r0] ?idx" by (simp add: r0)
  have hyp: "roots_inv [?r0] ?idx \<and> Config_root \<noteq> Explicit" using inv by simp
  have sd: "resolve_skill_directory toy toy_files (Path ''/opt/tool'') = Some (Path ''/opt/tool/skills'')"
    by code_simp
  have dup: "path_str (skill_dir ([?r0] ! 0)) = path_str (resolve toy toy_files (Path ''/opt/tool/skills''))"
    by code_simp
  have up: "outranks Config_root (source ([?r0] ! 0))"
    by code_simp
  from append_discovered_root_dedup[of toy toy_files "Path ''/w''" "[]" "[?r0]" ?idx Config_root
        "Path ''/opt/tool''", THEN conjunct2, rule_format, OF hyp]
  obtain roots' index' where
    run: "append_discovered_root toy toy_files [?r0] ?idx (Path ''/opt/tool'') Config_root
            = Inr (roots', index')"
    and di: "distinct (map (\<lambda>r. path_str (skill_dir r)) roots')"
    and cases: "\<forall>skill_dir'. resolve_skill_directory toy toy_files (Path ''/opt/tool'') = Some skill_dir' \<longrightarrow>
                 ((\<forall>r\<in>set [?r0]. path_str (skill_dir r) \<noteq> path_str (resolve toy toy_files skill_dir'))
                    \<longrightarrow> roots' = [?r0] @ [\<lparr>root_dir = resolve toy toy_files (Path ''/opt/tool''),
                                             skill_dir = resolve toy toy_files skill_dir',
                                             source = Config_root\<rparr>])
                 \<and> (\<forall>i<length [?r0].
                       path_str (skill_dir ([?r0] ! i)) = path_str (resolve toy toy_files skill_dir') \<longrightarrow>
                         (outranks Config_root (source ([?r0] ! i)) \<longrightarrow>
                            roots' = [?r0][i := ([?r0] ! i)\<lparr>root_dir := resolve toy toy_files (Path ''/opt/tool''),
                                                         source := Config_root\<rparr>])
                         \<and> (\<not> outranks Config_root (source ([?r0] ! i)) \<longrightarrow> roots' = [?r0]))"
    by blast
  from cases sd dup up
  have "roots' = [?r0][0 := ([?r0] ! 0)\<lparr>root_dir := resolve toy toy_files (Path ''/opt/tool''),
                                                         source := Config_root\<rparr>]"
    by simp
  also have "\<dots> = [\<lparr>root_dir = Path ''/opt/tool'', skill_dir = Path ''/opt/tool/skills'',
                   source = Config_root\<rparr>]"
    by (simp add: r0 toy_def)
  finally have res: "roots' = [\<lparr>root_dir = Path ''/opt/tool'', skill_dir = Path ''/opt/tool/skills'',
                   source = Config_root\<rparr>]" .
  from run res di show ?thesis by blast
qed

section \<open>Path Normalizer: the cases of a path text\<close>

lemma split_sep_plain: "CHR ''/'' \<notin> set x \<Longrightarrow> split_sep (x @ CHR ''/'' # rest) = x # split_sep rest"
  by (induction x) auto

lemma split_sep_single: "CHR ''/'' \<notin> set x \<Longrightarrow> split_sep x = [x]"
  by (induction x) auto

lemma split_sep_join:
  "xs \<noteq> [] \<Longrightarrow> \<forall>c\<in>set xs. CHR ''/'' \<notin> set c \<Longrightarrow> split_sep (join_sep xs) = xs"
proof (induction xs rule: join_sep.induct)
  case 1
  then show ?case by simp
next
  case (2 x)
  then show ?case by (simp add: split_sep_single)
next
  case (3 x y ys)
  then have "split_sep (join_sep (y # ys)) = y # ys" by simp
  moreover from 3 have "CHR ''/'' \<notin> set x" by simp
  ultimately show ?case by (simp add: split_sep_plain)
qed

lemma filter_wf:
  "\<forall>c\<in>set xs. c \<noteq> [] \<and> c \<noteq> ''.'' \<and> CHR ''/'' \<notin> set c \<Longrightarrow>
     filter (\<lambda>c. c \<noteq> [] \<and> c \<noteq> ''.'') xs = xs"
  by (induction xs) auto

lemma join_sep_hd:
  "xs \<noteq> [] \<Longrightarrow> hd xs \<noteq> [] \<Longrightarrow> join_sep xs \<noteq> [] \<and> hd (join_sep xs) = hd (hd xs)"
  by (induction xs rule: join_sep.induct) auto

lemma root_of_relative: "j \<noteq> [] \<Longrightarrow> hd j \<noteq> CHR ''/'' \<Longrightarrow> root_of j = []"
  by (cases j) (simp_all add: root_of_def startswith_def)

lemma root_of_one: "j = [] \<or> hd j \<noteq> CHR ''/'' \<Longrightarrow> root_of (CHR ''/'' # j) = ''/''"
  by (cases j) (auto simp: root_of_def startswith_def)

lemma root_of_two:
  "j = [] \<or> hd j \<noteq> CHR ''/'' \<Longrightarrow> root_of (CHR ''/'' # CHR ''/'' # j) = ''//''"
  by (cases j) (auto simp: root_of_def startswith_def)

lemma join_sep_start:
  assumes "\<forall>c\<in>set ps. c \<noteq> [] \<and> c \<noteq> ''.'' \<and> CHR ''/'' \<notin> set c"
  shows "join_sep ps = [] \<or> hd (join_sep ps) \<noteq> CHR ''/''"
proof (cases "ps = []")
  case True
  then show ?thesis by simp
next
  case False
  from False assms have "hd ps \<noteq> []" "CHR ''/'' \<notin> set (hd ps)" by (cases ps; simp)+
  with join_sep_hd[OF False] have "hd (join_sep ps) \<noteq> CHR ''/''"
    by (metis hd_in_set)
  then show ?thesis by simp
qed

lemma parts_of_joined:
  assumes "\<forall>c\<in>set ps. c \<noteq> [] \<and> c \<noteq> ''.'' \<and> CHR ''/'' \<notin> set c"
  shows "filter (\<lambda>c. c \<noteq> [] \<and> c \<noteq> ''.'') (split_sep (join_sep ps)) = ps"
proof (cases "ps = []")
  case True
  then show ?thesis by simp
next
  case False
  from assms have "\<forall>c\<in>set ps. CHR ''/'' \<notin> set c" by blast
  from split_sep_join[OF False this] filter_wf[OF assms] show ?thesis by simp
qed

lemma Path_path_str:
  assumes "wf_path p"
  shows "Path (path_str p) = p"
proof (cases p)
  case (PurePath r ps)
  with assms have wf: "\<forall>c\<in>set ps. c \<noteq> [] \<and> c \<noteq> ''.'' \<and> CHR ''/'' \<notin> set c"
    and r: "r = [] \<or> r = ''/'' \<or> r = ''//''"
    by (simp_all add: wf_path_def)
  note st = join_sep_start[OF wf]
  note pj = parts_of_joined[OF wf]
  from r consider "r = []" | "r = ''/''" | "r = ''//''" by blast
  then show ?thesis
  proof cases
    case 1
    show ?thesis
    proof (cases "ps = []")
      case True
      with PurePath 1 show ?thesis
        by (simp add: Path_def path_str_def is_absolute_def root_of_def startswith_def)
    next
      case False
      from False wf have "hd ps \<noteq> []" by (cases ps; simp)
      with join_sep_hd[OF False] st have "join_sep ps \<noteq> []" "hd (join_sep ps) \<noteq> CHR ''/''"
        by auto
      from root_of_relative[OF this] PurePath 1 False pj show ?thesis
        by (simp add: Path_def path_str_def is_absolute_def)
    qed
  next
    case 2
    from root_of_one[OF st] PurePath 2 pj show ?thesis
      by (simp add: Path_def path_str_def is_absolute_def)
  next
    case 3
    from root_of_two[OF st] PurePath 3 pj show ?thesis
      by (simp add: Path_def path_str_def is_absolute_def)
  qed
qed

lemma split_sep_no_sep: "\<forall>c\<in>set (split_sep t). CHR ''/'' \<notin> set c"
  by (induction t) (auto split: list.splits)

lemma wf_path_Path: "wf_path (Path t)"
  using split_sep_no_sep[of t] by (auto simp: wf_path_def Path_def root_of_def)

lemma wf_path_joinpath: "wf_path p \<Longrightarrow> wf_path q \<Longrightarrow> wf_path (joinpath p q)"
  by (auto simp: wf_path_def joinpath_def)

lemma joinpath_empty: "joinpath p (Path []) = p"
  by (cases p) (simp add: joinpath_def Path_def root_of_def is_absolute_def startswith_def)

lemma is_absolute_Path: "is_absolute (Path t) = startswith t ''/''"
  by (cases t) (auto simp: Path_def root_of_def is_absolute_def startswith_def)

lemma normalize_home:
  "strip path_text = ''~'' \<Longrightarrow> normalize_path_input sys path_text = path_str (Path_home sys)"
  by (simp add: normalize_path_input_def)

lemma normalize_under_home:
  "startswith (strip path_text) ''~/'' \<Longrightarrow>
     normalize_path_input sys path_text
       = path_str (joinpath (Path_home sys) (Path (drop 2 (strip path_text))))"
  by (auto simp: normalize_path_input_def Let_def startswith_def)

lemma normalize_other:
  "strip path_text \<noteq> ''~'' \<Longrightarrow> \<not> startswith (strip path_text) ''~/'' \<Longrightarrow>
     normalize_path_input sys path_text = strip path_text"
  by (simp add: normalize_path_input_def Let_def)

text \<open>
  C3, as the code has it. Let the input hold no NUL character, let \<open>t\<close> be the input
  without its leading and trailing white space, and let the home directory be an absolute
  path. If \<open>t\<close> is empty the Path Normalizer returns the empty text, and the path made from
  it is the base directory, resolved. If \<open>t\<close> is \<open>~\<close> the result is the home directory,
  resolved. If \<open>t\<close> starts with \<open>~/\<close>, the rest of \<open>t\<close> is joined to the home directory: a
  rest that does not start with a slash is resolved below the home directory, a rest that
  starts with a slash takes the place of the home directory and is resolved as the absolute
  path it is. A \<open>t\<close> that is not empty, is not \<open>~\<close> and does not start with \<open>~/\<close> is
  resolved as it is when it starts with a slash, and below the base directory when it does
  not. (Whether \<open>Path.home\<close> and \<open>Path.resolve\<close> return is not part of the statement.)
\<close>

theorem path_normalizer_cases:
  assumes "wf_path (Path_home sys)" and "is_absolute (Path_home sys)"
    and "CHR 0x00 \<notin> set path_text"
  shows
  "(strip path_text = [] \<longrightarrow>
      normalize_path_input sys path_text = []
      \<and> resolve_maybe_absolute sys s path_text base_dir' = resolve sys s base_dir')
   \<and> (strip path_text = ''~'' \<longrightarrow>
      normalize_path_input sys path_text = path_str (Path_home sys)
      \<and> resolve_maybe_absolute sys s path_text base_dir' = resolve sys s (Path_home sys))
   \<and> (startswith (strip path_text) ''~/'' \<and> \<not> startswith (drop 2 (strip path_text)) ''/'' \<longrightarrow>
      resolve_maybe_absolute sys s path_text base_dir'
        = resolve sys s (PurePath (path_root (Path_home sys))
                           (parts (Path_home sys) @ parts (Path (drop 2 (strip path_text))))))
   \<and> (startswith (strip path_text) ''~/'' \<and> startswith (drop 2 (strip path_text)) ''/'' \<longrightarrow>
      resolve_maybe_absolute sys s path_text base_dir'
        = resolve sys s (Path (drop 2 (strip path_text))))
   \<and> (strip path_text \<noteq> [] \<and> strip path_text \<noteq> ''~'' \<and> \<not> startswith (strip path_text) ''~/'' \<longrightarrow>
      normalize_path_input sys path_text = strip path_text
      \<and> (startswith (strip path_text) ''/'' \<longrightarrow>
            resolve_maybe_absolute sys s path_text base_dir' = resolve sys s (Path (strip path_text)))
      \<and> (\<not> startswith (strip path_text) ''/'' \<longrightarrow>
            resolve_maybe_absolute sys s path_text base_dir'
              = resolve sys s (joinpath base_dir' (Path (strip path_text)))))"
proof (intro conjI impI)
  assume "strip path_text = []"
  then show "normalize_path_input sys path_text = []"
    by (simp add: normalize_path_input_def)
  then show "resolve_maybe_absolute sys s path_text base_dir' = resolve sys s base_dir'"
    using joinpath_empty[of base_dir']
    by (simp add: resolve_maybe_absolute_def is_absolute_Path startswith_def)
next
  assume h: "strip path_text = ''~''"
  from normalize_home[OF h] show n: "normalize_path_input sys path_text = path_str (Path_home sys)" .
  from Path_path_str[OF assms(1)] assms(2) n
  show "resolve_maybe_absolute sys s path_text base_dir' = resolve sys s (Path_home sys)"
    by (simp add: resolve_maybe_absolute_def)
next
  assume h: "startswith (strip path_text) ''~/'' \<and> \<not> startswith (drop 2 (strip path_text)) ''/''"
  let ?rest = "Path (drop 2 (strip path_text))"
  from h have rel: "\<not> is_absolute ?rest" by (simp add: is_absolute_Path)
  then have j: "joinpath (Path_home sys) ?rest
                  = PurePath (path_root (Path_home sys)) (parts (Path_home sys) @ parts ?rest)"
    by (simp add: joinpath_def)
  have a: "is_absolute (PurePath (path_root (Path_home sys)) (parts (Path_home sys) @ parts ?rest))"
    using assms(2) by (simp add: is_absolute_def)
  have "wf_path (joinpath (Path_home sys) ?rest)"
    by (rule wf_path_joinpath[OF assms(1) wf_path_Path])
  from Path_path_str[OF this] normalize_under_home[of path_text sys] h j a
  show "resolve_maybe_absolute sys s path_text base_dir'
        = resolve sys s (PurePath (path_root (Path_home sys)) (parts (Path_home sys) @ parts ?rest))"
    by (simp add: resolve_maybe_absolute_def)
next
  assume h: "startswith (strip path_text) ''~/'' \<and> startswith (drop 2 (strip path_text)) ''/''"
  let ?rest = "Path (drop 2 (strip path_text))"
  from h have ab: "is_absolute ?rest" by (simp add: is_absolute_Path)
  then have j: "joinpath (Path_home sys) ?rest = ?rest" by (simp add: joinpath_def)
  from Path_path_str[OF wf_path_Path[of "drop 2 (strip path_text)"]]
    normalize_under_home[of path_text sys] h j ab
  show "resolve_maybe_absolute sys s path_text base_dir' = resolve sys s ?rest"
    by (simp add: resolve_maybe_absolute_def)
next
  assume h: "strip path_text \<noteq> [] \<and> strip path_text \<noteq> ''~'' \<and> \<not> startswith (strip path_text) ''~/''"
  then show n: "normalize_path_input sys path_text = strip path_text"
    by (simp add: normalize_other)
  {
    assume "startswith (strip path_text) ''/''"
    with n show "resolve_maybe_absolute sys s path_text base_dir' = resolve sys s (Path (strip path_text))"
      by (simp add: resolve_maybe_absolute_def is_absolute_Path)
  }
  {
    assume "\<not> startswith (strip path_text) ''/''"
    with n show "resolve_maybe_absolute sys s path_text base_dir'
              = resolve sys s (joinpath base_dir' (Path (strip path_text)))"
      by (simp add: resolve_maybe_absolute_def is_absolute_Path)
  }
qed

theorem path_normalizer_cases_witness:
  "resolve_maybe_absolute toy toy_files '' ~/x '' (Path ''/w'') = Path ''/home/u/x''"
proof -
  have h1: "wf_path (Path_home toy)" using wf_path_Path[of "''/home/u''"] by (simp add: toy_def)
  have h2: "is_absolute (Path_home toy)" by code_simp
  have h3: "CHR 0x00 \<notin> set '' ~/x ''" by simp
  have c: "startswith (strip '' ~/x '') ''~/'' \<and> \<not> startswith (drop 2 (strip '' ~/x '')) ''/''"
    by code_simp
  have e: "resolve toy toy_files (PurePath (path_root (Path_home toy))
             (parts (Path_home toy) @ parts (Path (drop 2 (strip '' ~/x '')))))
             = Path ''/home/u/x''"
    by code_simp
  from path_normalizer_cases[OF h1 h2 h3, of toy_files "Path ''/w''"] c
  have "resolve_maybe_absolute toy toy_files '' ~/x '' (Path ''/w'')
          = resolve toy toy_files (PurePath (path_root (Path_home toy))
             (parts (Path_home toy) @ parts (Path (drop 2 (strip '' ~/x '')))))"
    by blast
  then show ?thesis using e by (rule trans)
qed

text \<open>
  C3, as it is stated, fails: an input of two spaces is not returned itself, the empty
  text is; and \<open>~//etc\<close> starts with \<open>~/\<close> but resolves to \<open>/etc\<close>, which is not below the
  home directory \<open>/home/u\<close>.
\<close>

theorem path_normalizer_counterexample:
  "normalize_path_input toy ''  '' \<noteq> ''  ''
   \<and> resolve_maybe_absolute toy toy_files ''~//etc'' (Path ''/w'') = Path ''/etc''
   \<and> Path_home toy = Path ''/home/u''"
  by code_simp

section \<open>Metadata injection: a header that cannot be used\<close>

lemma parse_frontmatter_no_match:
  "FRONTMATTER_RE_match content = None \<Longrightarrow> parse_frontmatter sys content = ([], content)"
  by (simp add: parse_frontmatter_def)

lemma parse_frontmatter_unusable:
  assumes "FRONTMATTER_RE_match content = Some (yaml_text, body)"
    and "safe_load sys yaml_text = Inr (YDict [])
         \<or> (\<exists>m. safe_load sys yaml_text = Inl m)
         \<or> (\<exists>v. safe_load sys yaml_text = Inr v \<and> (\<forall>d. v \<noteq> YDict d))"
  shows "parse_frontmatter sys content = ([], body)"
proof -
  from assms(2) consider "safe_load sys yaml_text = Inr (YDict [])"
    | m where "safe_load sys yaml_text = Inl m"
    | v where "safe_load sys yaml_text = Inr v" "\<forall>d. v \<noteq> YDict d"
    by blast
  then show ?thesis
  proof cases
    case 1
    with assms(1) show ?thesis by (simp add: parse_frontmatter_def)
  next
    case 2
    with assms(1) show ?thesis by (simp add: parse_frontmatter_def)
  next
    case 3
    with assms(1) show ?thesis by (cases v) (simp_all add: parse_frontmatter_def)
  qed
qed

lemma inject_empty_header:
  assumes "read_text sys s destination_skill_md = Inr raw"
    and "fst (parse_frontmatter sys raw) = []"
  shows "inject_fork_metadata sys s destination_skill_md source_entry
           = (s, Some (RuntimeError (''Missing frontmatter in destination SKILL.md: ''
                                     @ path_str destination_skill_md)))"
  using assms by (cases "parse_frontmatter sys raw") (simp add: inject_fork_metadata_def)

text \<open>
  C10. Let the destination definition be readable. When the header pattern does not match
  its text, parsing gives the empty mapping and the whole text as body. When the pattern
  matches and the header block is an empty mapping, is not a mapping, or makes the YAML
  parser raise its error, parsing gives the empty mapping as well. In all these cases
  injection writes nothing and fails with the same error, that the front matter is
  missing.
\<close>

theorem inject_fork_metadata_unusable_header:
  assumes "read_text sys s destination_skill_md = Inr raw"
  shows
  "(FRONTMATTER_RE_match raw = None \<longrightarrow>
      parse_frontmatter sys raw = ([], raw)
      \<and> inject_fork_metadata sys s destination_skill_md source_entry
          = (s, Some (RuntimeError (''Missing frontmatter in destination SKILL.md: ''
                                    @ path_str destination_skill_md))))
   \<and> (\<forall>yaml_text body.
        FRONTMATTER_RE_match raw = Some (yaml_text, body)
        \<and> (safe_load sys yaml_text = Inr (YDict [])
            \<or> (\<exists>m. safe_load sys yaml_text = Inl m)
            \<or> (\<exists>v. safe_load sys yaml_text = Inr v \<and> (\<forall>d. v \<noteq> YDict d)))
        \<longrightarrow> parse_frontmatter sys raw = ([], body)
            \<and> inject_fork_metadata sys s destination_skill_md source_entry
                = (s, Some (RuntimeError (''Missing frontmatter in destination SKILL.md: ''
                                          @ path_str destination_skill_md))))"
proof (intro conjI allI impI)
  assume "FRONTMATTER_RE_match raw = None"
  from parse_frontmatter_no_match[OF this] show p: "parse_frontmatter sys raw = ([], raw)" .
  then have "fst (parse_frontmatter sys raw) = []" by simp
  from inject_empty_header[OF assms this]
  show "inject_fork_metadata sys s destination_skill_md source_entry
          = (s, Some (RuntimeError (''Missing frontmatter in destination SKILL.md: ''
                                    @ path_str destination_skill_md)))" .
next
  fix yaml_text body
  assume h: "FRONTMATTER_RE_match raw = Some (yaml_text, body)
        \<and> (safe_load sys yaml_text = Inr (YDict [])
            \<or> (\<exists>m. safe_load sys yaml_text = Inl m)
            \<or> (\<exists>v. safe_load sys yaml_text = Inr v \<and> (\<forall>d. v \<noteq> YDict d)))"
  from parse_frontmatter_unusable[OF h[THEN conjunct1] h[THEN conjunct2]]
  show p: "parse_frontmatter sys raw = ([], body)" .
  then have "fst (parse_frontmatter sys raw) = []" by simp
  from inject_empty_header[OF assms this]
  show "inject_fork_metadata sys s destination_skill_md source_entry
          = (s, Some (RuntimeError (''Missing frontmatter in destination SKILL.md: ''
                                    @ path_str destination_skill_md)))" .
qed

theorem inject_fork_metadata_unusable_header_witness:
  "parse_frontmatter toy toy_malformed = ([], ''body'')
   \<and> inject_fork_metadata toy [(Path ''/d/SKILL.md'', toy_malformed)] (Path ''/d/SKILL.md'')
        (toy_entry ''foo'' Base ''/opt/tool/skills/base/foo'' (toy_roots ! 0))
      = ([(Path ''/d/SKILL.md'', toy_malformed)],
         Some (RuntimeError ''Missing frontmatter in destination SKILL.md: /d/SKILL.md''))"
proof -
  have r: "read_text toy [(Path ''/d/SKILL.md'', toy_malformed)] (Path ''/d/SKILL.md'') = Inr toy_malformed"
    by code_simp
  have m: "FRONTMATTER_RE_match toy_malformed = Some (''name ['', ''body'')
        \<and> (safe_load toy ''name ['' = Inr (YDict [])
            \<or> (\<exists>m. safe_load toy ''name ['' = Inl m)
            \<or> (\<exists>v. safe_load toy ''name ['' = Inr v \<and> (\<forall>d. v \<noteq> YDict d)))"
    by (simp add: toy_malformed_def FRONTMATTER_RE_match_def toy_def toy_safe_load_def startswith_def)
  have p: "''Missing frontmatter in destination SKILL.md: '' @ path_str (Path ''/d/SKILL.md'')
             = ''Missing frontmatter in destination SKILL.md: /d/SKILL.md''"
    by code_simp
  from inject_fork_metadata_unusable_header[OF r, THEN conjunct2, rule_format, OF m,
         of "toy_entry ''foo'' Base ''/opt/tool/skills/base/foo'' (toy_roots ! 0)"]
  show ?thesis unfolding p .
qed

section \<open>The workflow: failures before any write\<close>

lemma discover_skill_roots_returns:
  "\<exists>roots. discover_skill_roots sys s cwd configured_roots = Inr roots"
  using discover_skill_roots_distinct[of sys s cwd configured_roots] by blast

lemma main_after_discovery:
  assumes "strip (arg_skill_name a) \<noteq> []"
    and "load_skill_settings sys s (Path_cwd sys) (arg_config_path a)
           = (packs, configured_roots, disabled, config_files)"
    and "discover_skill_roots sys s (Path_cwd sys) configured_roots = Inr roots"
  shows "main sys a s =
     (case request_source sys s a (strip (arg_skill_name a)) (Path_cwd sys)
             (fst (load_registry sys s roots packs)) of
        Inl out \<Rightarrow> (out, s)
      | Inr source_entry \<Rightarrow>
          (if exists sys s (destination_of sys s a (strip (arg_skill_name a)) (Path_cwd sys)
                              source_entry) \<and> \<not> arg_force a then
             (Return 1 [''Error: Destination already exists: ''
                        @ path_str (destination_of sys s a (strip (arg_skill_name a))
                                      (Path_cwd sys) source_entry),
                        ''Use --force to overwrite.''], s)
           else if arg_dry_run a then
             (Return 0 [''Dry-run complete. No files were written.''], s)
           else
             materialize sys s a (strip (arg_skill_name a)) (Path_cwd sys) configured_roots
               packs disabled source_entry
               (destination_of sys s a (strip (arg_skill_name a)) (Path_cwd sys)
                  source_entry)))"
  using assms by (simp add: main_def Let_def split: sum.splits)






text \<open>
  C4. Let the source of a fork be resolved. When the destination skill directory exists and
  \<open>--force\<close> was not given, the workflow ends with exit code 1 and the error that the
  destination already exists, and the filesystem is as it was: no operation that writes
  has run.
\<close>

theorem destination_exists_without_force:
  assumes "strip (arg_skill_name a) \<noteq> []"
    and "load_skill_settings sys s (Path_cwd sys) (arg_config_path a)
           = (packs, configured_roots, disabled, config_files)"
    and "discover_skill_roots sys s (Path_cwd sys) configured_roots = Inr roots"
    and "request_source sys s a (strip (arg_skill_name a)) (Path_cwd sys)
           (fst (load_registry sys s roots packs)) = Inr source_entry"
    and "exists sys s (destination_of sys s a (strip (arg_skill_name a)) (Path_cwd sys)
                         source_entry)"
    and "\<not> arg_force a"
  shows "main sys a s =
     (Return 1 [''Error: Destination already exists: ''
                @ path_str (destination_of sys s a (strip (arg_skill_name a)) (Path_cwd sys)
                              source_entry),
                ''Use --force to overwrite.''], s)"
  unfolding main_after_discovery[OF assms(1) assms(2) assms(3)] using assms(4,5,6) by simp

theorem destination_exists_without_force_witness:
  "main toy (toy_args\<lparr>arg_tier := Some Base\<rparr>) toy_files
     = (Return 1 [''Error: Destination already exists: /w/.brewva/skills/base/foo'',
                  ''Use --force to overwrite.''], toy_files)"
proof -
  let ?a = "toy_args\<lparr>arg_tier := Some Base\<rparr>"
  let ?e = "toy_entry ''foo'' Pack ''/opt/tool/skills/packs/react/foo'' (toy_roots ! 0)"
  have h1: "strip (arg_skill_name ?a) \<noteq> []" by code_simp
  have h2: "load_skill_settings toy toy_files (Path_cwd toy) (arg_config_path ?a)
              = (DEFAULT_PACKS, [], [],
                 [Path ''/home/u/.config/brewva/brewva.json'', Path ''/w/.brewva/brewva.json''])"
    by code_simp
  have h3: "discover_skill_roots toy toy_files (Path_cwd toy) [] = Inr toy_roots"
    by code_simp
  have h4: "request_source toy toy_files ?a (strip (arg_skill_name ?a)) (Path_cwd toy)
              (fst (load_registry toy toy_files toy_roots DEFAULT_PACKS)) = Inr ?e"
    by code_simp
  have h5: "exists toy toy_files
              (destination_of toy toy_files ?a (strip (arg_skill_name ?a)) (Path_cwd toy) ?e)"
    by code_simp
  have h6: "\<not> arg_force ?a" by (simp add: toy_args_def)
  have msg: "''Error: Destination already exists: ''
                @ path_str (destination_of toy toy_files ?a (strip (arg_skill_name ?a))
                              (Path_cwd toy) ?e)
             = ''Error: Destination already exists: /w/.brewva/skills/base/foo''"
    by code_simp
  from destination_exists_without_force[OF h1 h2 h3 h4 h5 h6]
  show ?thesis unfolding msg .
qed

section \<open>The workflow: materialization and the activation check\<close>

lemma pop_disabled:
  "foldl (\<lambda>refreshed_loaded disabled_name. refreshed_loaded(disabled_name := None)) m ds k
     = (if k \<in> set ds then None else m k)"
  by (induction ds arbitrary: m) auto

lemma refreshed_effective_eq:
  "discover_skill_roots sys s cwd configured_roots = Inr refreshed_roots \<Longrightarrow>
     refreshed_effective sys s cwd configured_roots packs disabled skill_name
       = Inr (if skill_name \<in> set disabled then None
              else fst (load_registry sys s refreshed_roots packs) skill_name)"
  by (simp add: refreshed_effective_def pop_disabled)

lemma active_eq:
  "discover_skill_roots sys s cwd configured_roots = Inr refreshed_roots \<Longrightarrow>
     active sys s (if skill_name \<in> set disabled then None
                   else fst (load_registry sys s refreshed_roots packs) skill_name)
       destination_skill_dir
     = fork_is_active sys s refreshed_roots packs disabled skill_name destination_skill_dir"
  by (simp add: active_def fork_is_active_def)

lemma confirm_active_eq:
  assumes "discover_skill_roots sys s cwd configured_roots = Inr refreshed_roots"
  shows "confirm_active sys s a skill_name cwd configured_roots packs disabled
           destination_skill_dir out =
     (if fork_is_active sys s refreshed_roots packs disabled skill_name destination_skill_dir
      then Return 0 (out @ [''Active override confirmed:'', ''Skill fork completed.''])
      else if \<not> arg_allow_inactive a
      then Return 2 (out @ [''Fork created, but it is not currently the effective skill.''])
      else Return 0 (out @ [''Fork created, but it is not currently the effective skill.'',
                            ''Skill fork completed.'']))"
  unfolding confirm_active_def refreshed_effective_eq[OF assms] sum.case active_eq[OF assms]
  by (rule refl)

lemma materialize_validated:
  assumes "stage_source sys s a source_entry dest = (s1, Inr (source_dir_for_copy, staged))"
    and "copy_to_destination sys s1 a source_dir_for_copy dest = (s2, None)"
    and "exists sys (cleanup_staging sys s2 staged) (joinpath dest (Path ''SKILL.md''))"
    and "(if \<not> arg_no_metadata a
          then inject_fork_metadata sys (cleanup_staging sys s2 staged)
                 (joinpath dest (Path ''SKILL.md'')) source_entry
          else (cleanup_staging sys s2 staged, None)) = (s4, None)"
    and "run_validation sys s4 dest = (True, message)"
  shows "materialize sys s a skill_name cwd configured_roots packs disabled source_entry dest
     = (confirm_active sys s4 a skill_name cwd configured_roots packs disabled dest
          [''Validation: '' @ message], s4)"
  using assms(1,2,3,5) unfolding materialize_def
  by (simp add: Let_def assms(4))

text \<open>
  C8. Let a fork get through its copy, its metadata step and its validation, leaving the
  filesystem in state \<open>s4\<close>. Then Root Discovery on \<open>s4\<close> returns roots; the effective entry
  looked up is that of the registry built from them on \<open>s4\<close>, after the disabled names were
  removed; a disabled name is never active; and the workflow reports the fork active, with
  exit code 0, exactly when that entry exists and its content directory is the destination.
  A fork that is not active ends with exit code 2 unless inactivity was allowed, and with 0
  when it was.
\<close>

theorem fork_active_after_refresh:
  assumes "skill_name = strip (arg_skill_name a)" and "skill_name \<noteq> []"
    and "load_skill_settings sys s (Path_cwd sys) (arg_config_path a)
           = (packs, configured_roots, disabled, config_files)"
    and "discover_skill_roots sys s (Path_cwd sys) configured_roots = Inr roots"
    and "request_source sys s a skill_name (Path_cwd sys)
           (fst (load_registry sys s roots packs)) = Inr source_entry"
    and "dest = destination_of sys s a skill_name (Path_cwd sys) source_entry"
    and "\<not> (exists sys s dest \<and> \<not> arg_force a)" and "\<not> arg_dry_run a"
    and "stage_source sys s a source_entry dest = (s1, Inr (source_dir_for_copy, staged))"
    and "copy_to_destination sys s1 a source_dir_for_copy dest = (s2, None)"
    and "exists sys (cleanup_staging sys s2 staged) (joinpath dest (Path ''SKILL.md''))"
    and "(if \<not> arg_no_metadata a
          then inject_fork_metadata sys (cleanup_staging sys s2 staged)
                 (joinpath dest (Path ''SKILL.md'')) source_entry
          else (cleanup_staging sys s2 staged, None)) = (s4, None)"
    and "run_validation sys s4 dest = (True, message)"
  shows
  "\<exists>refreshed_roots.
     discover_skill_roots sys s4 (Path_cwd sys) configured_roots = Inr refreshed_roots
     \<and> refreshed_effective sys s4 (Path_cwd sys) configured_roots packs disabled skill_name
         = Inr (if skill_name \<in> set disabled then None
                else fst (load_registry sys s4 refreshed_roots packs) skill_name)
     \<and> (skill_name \<in> set disabled
          \<longrightarrow> \<not> fork_is_active sys s4 refreshed_roots packs disabled skill_name dest)
     \<and> main sys a s =
         (if fork_is_active sys s4 refreshed_roots packs disabled skill_name dest
          then Return 0 [''Validation: '' @ message, ''Active override confirmed:'',
                         ''Skill fork completed.'']
          else if \<not> arg_allow_inactive a
          then Return 2 [''Validation: '' @ message,
                         ''Fork created, but it is not currently the effective skill.'']
          else Return 0 [''Validation: '' @ message,
                         ''Fork created, but it is not currently the effective skill.'',
                         ''Skill fork completed.''], s4)"
proof -
  obtain refreshed_roots where
    rr: "discover_skill_roots sys s4 (Path_cwd sys) configured_roots = Inr refreshed_roots"
    using discover_skill_roots_returns[of sys s4 "Path_cwd sys" configured_roots] by blast
  have nonempty: "strip (arg_skill_name a) \<noteq> []" using assms(1,2) by simp
  have src: "request_source sys s a (strip (arg_skill_name a)) (Path_cwd sys)
           (fst (load_registry sys s roots packs)) = Inr source_entry"
    using assms(1,5) by simp
  have d: "destination_of sys s a (strip (arg_skill_name a)) (Path_cwd sys) source_entry = dest"
    using assms(1,6) by simp
  have m1: "main sys a s =
      materialize sys s a skill_name (Path_cwd sys) configured_roots packs disabled
        source_entry dest"
    unfolding main_after_discovery[OF nonempty assms(3) assms(4)] src sum.case d
    using assms(1,7,8) by auto
  note m2 = materialize_validated[OF assms(9) assms(10) assms(11) assms(12) assms(13)]
  note m3 = confirm_active_eq[OF rr]
  have m: "main sys a s =
         (if fork_is_active sys s4 refreshed_roots packs disabled skill_name dest
          then Return 0 [''Validation: '' @ message, ''Active override confirmed:'',
                         ''Skill fork completed.'']
          else if \<not> arg_allow_inactive a
          then Return 2 [''Validation: '' @ message,
                         ''Fork created, but it is not currently the effective skill.'']
          else Return 0 [''Validation: '' @ message,
                         ''Fork created, but it is not currently the effective skill.'',
                         ''Skill fork completed.''], s4)"
    unfolding m1 m2 m3 by simp
  have dis: "skill_name \<in> set disabled
          \<longrightarrow> \<not> fork_is_active sys s4 refreshed_roots packs disabled skill_name dest"
    by (simp add: fork_is_active_def)
  from rr refreshed_effective_eq[OF rr] dis m show ?thesis by blast
qed

theorem fork_active_after_refresh_witness:
  "main toy (toy_args\<lparr>arg_tier := Some Project\<rparr>) toy_files
     = (Return 0 [''Validation: quick_validate unavailable; skipped'',
                  ''Active override confirmed:'', ''Skill fork completed.''], toy_forked_files)
   \<and> fork_is_active toy toy_forked_files toy_roots DEFAULT_PACKS [] ''foo''
         (Path ''/w/.brewva/skills/project/foo'')"
proof -
  let ?a = "toy_args\<lparr>arg_tier := Some Project\<rparr>"
  let ?e = "toy_entry ''foo'' Pack ''/opt/tool/skills/packs/react/foo'' (toy_roots ! 0)"
  let ?d = "Path ''/w/.brewva/skills/project/foo''"
  let ?src = "Path ''/opt/tool/skills/packs/react/foo''"
  have h1: "''foo'' = strip (arg_skill_name ?a)" by code_simp
  have h2: "''foo'' \<noteq> []" by simp
  have h3: "load_skill_settings toy toy_files (Path_cwd toy) (arg_config_path ?a)
              = (DEFAULT_PACKS, [], [],
                 [Path ''/home/u/.config/brewva/brewva.json'', Path ''/w/.brewva/brewva.json''])"
    by code_simp
  have h4: "discover_skill_roots toy toy_files (Path_cwd toy) [] = Inr toy_roots"
    by code_simp
  have h5: "request_source toy toy_files ?a ''foo'' (Path_cwd toy)
              (fst (load_registry toy toy_files toy_roots DEFAULT_PACKS)) = Inr ?e"
    by code_simp
  have h6: "?d = destination_of toy toy_files ?a ''foo'' (Path_cwd toy) ?e"
    by code_simp
  have h7: "\<not> (exists toy toy_files ?d \<and> \<not> arg_force ?a)" by code_simp
  have h8: "\<not> arg_dry_run ?a" by (simp add: toy_args_def)
  have h9: "stage_source toy toy_files ?a ?e ?d = (toy_files, Inr (?src, None))"
    by code_simp
  have h10: "copy_to_destination toy toy_files ?a ?src ?d = (toy_forked_files, None)"
    by code_simp
  have h11: "exists toy (cleanup_staging toy toy_forked_files None)
               (joinpath ?d (Path ''SKILL.md''))"
    by code_simp
  have h12: "(if \<not> arg_no_metadata ?a
          then inject_fork_metadata toy (cleanup_staging toy toy_forked_files None)
                 (joinpath ?d (Path ''SKILL.md'')) ?e
          else (cleanup_staging toy toy_forked_files None, None)) = (toy_forked_files, None)"
    by code_simp
  have h13: "run_validation toy toy_forked_files ?d
               = (True, ''quick_validate unavailable; skipped'')"
    by code_simp
  from fork_active_after_refresh[OF h1 h2 h3 h4 h5 h6 h7 h8 h9 h10 h11 h12 h13]
  obtain rr where
    d: "discover_skill_roots toy toy_forked_files (Path_cwd toy) [] = Inr rr"
    and m: "main toy ?a toy_files =
         (if fork_is_active toy toy_forked_files rr DEFAULT_PACKS [] ''foo'' ?d
          then Return 0 [''Validation: '' @ ''quick_validate unavailable; skipped'',
                         ''Active override confirmed:'', ''Skill fork completed.'']
          else if \<not> arg_allow_inactive ?a
          then Return 2 [''Validation: '' @ ''quick_validate unavailable; skipped'',
                         ''Fork created, but it is not currently the effective skill.'']
          else Return 0 [''Validation: '' @ ''quick_validate unavailable; skipped'',
                         ''Fork created, but it is not currently the effective skill.'',
                         ''Skill fork completed.''], toy_forked_files)"
    by blast
  have d': "discover_skill_roots toy toy_forked_files (Path_cwd toy) [] = Inr toy_roots"
    by code_simp
  with d have rr: "rr = toy_roots" by simp
  have act: "fork_is_active toy toy_forked_files toy_roots DEFAULT_PACKS [] ''foo'' ?d"
    by code_simp
  from m act show ?thesis unfolding rr by simp
qed

text \<open>
  The staging copy of a self-overwrite runs before the \<open>try\<close> of the copy: what it raises
  leaves \<open>main\<close>, and the \<open>finally\<close> that removes the staging directory is not reached.
\<close>

lemma staging_failure_escapes:
  assumes "strip (arg_skill_name a) \<noteq> []"
    and "load_skill_settings sys s (Path_cwd sys) (arg_config_path a)
           = (packs, configured_roots, disabled, config_files)"
    and "discover_skill_roots sys s (Path_cwd sys) configured_roots = Inr roots"
    and "request_source sys s a (strip (arg_skill_name a)) (Path_cwd sys)
           (fst (load_registry sys s roots packs)) = Inr source_entry"
    and "arg_force a" and "\<not> arg_dry_run a"
    and "stage_source sys s a source_entry
           (destination_of sys s a (strip (arg_skill_name a)) (Path_cwd sys) source_entry)
           = (s1, Inl e)"
  shows "main sys a s = (Raised e, s1)"
  unfolding main_after_discovery[OF assms(1) assms(2) assms(3)] assms(4) sum.case
  using assms(5,6,7) by (simp add: materialize_def)

text \<open>
  C9 does not hold of the code. Where \<open>shutil.copytree\<close> is denied, forking \<open>foo\<close> with
  \<open>--force\<close> onto its own directory ends in the exception of the staging copy, which nothing
  catches; the same failure of the copy to another destination is caught and gives exit
  code 1.
\<close>

theorem staging_copy_failure_uncaught:
  "main toy_denied (toy_args\<lparr>arg_force := True\<rparr>) toy_self_files
     = (Raised (OSError ''Permission denied''), toy_self_files)
   \<and> main toy_denied (toy_args\<lparr>arg_tier := Some Project\<rparr>) toy_files
     = (Return 1 [''Error: Failed to copy skill contents: Permission denied''], toy_files)"
  by code_simp

text \<open>Once the staging is done, every failure is reported with an exit code.\<close>

lemma confirm_active_returns:
  "\<exists>rc out. confirm_active sys s a skill_name cwd configured_roots packs disabled dest out0
      = Return rc out"
proof -
  obtain rr where rr: "discover_skill_roots sys s cwd configured_roots = Inr rr"
    using discover_skill_roots_returns[of sys s cwd configured_roots] by blast
  show ?thesis unfolding confirm_active_eq[OF rr] by simp
qed

lemma materialize_after_staging_returns:
  assumes "stage_source sys s a source_entry dest = (s1, Inr (source_dir_for_copy, staged))"
  shows "\<exists>rc out s'. materialize sys s a skill_name cwd configured_roots packs disabled
                         source_entry dest = (Return rc out, s')"
proof (cases "copy_to_destination sys s1 a source_dir_for_copy dest")
  case (Pair s2 r)
  show ?thesis
  proof (cases r)
    case (Some error)
    with Pair assms show ?thesis by (simp add: materialize_def)
  next
    case None
    let ?s3 = "cleanup_staging sys s2 staged"
    let ?md = "joinpath dest (Path ''SKILL.md'')"
    show ?thesis
    proof (cases "exists sys ?s3 ?md")
      case False
      with Pair None assms show ?thesis by (simp add: materialize_def Let_def)
    next
      case True
      obtain s4 r4 where inj: "(if \<not> arg_no_metadata a
                         then inject_fork_metadata sys ?s3 ?md source_entry
                         else (?s3, None)) = (s4, r4)"
        by (cases "(if \<not> arg_no_metadata a
                         then inject_fork_metadata sys ?s3 ?md source_entry
                         else (?s3, None))")
      show ?thesis
      proof (cases r4)
        case (Some error)
        with Pair None assms True inj show ?thesis
          unfolding materialize_def by (simp add: Let_def inj)
      next
        case n4: None
        obtain valid message where v: "run_validation sys s4 dest = (valid, message)"
          by (cases "run_validation sys s4 dest")
        show ?thesis
        proof (cases valid)
          case False
          with Pair None assms True inj n4 v show ?thesis
            unfolding materialize_def by (simp add: Let_def inj)
        next
          case t: True
          from confirm_active_returns[of sys s4 a skill_name cwd configured_roots packs
                 disabled dest "[''Validation: '' @ message]"]
          obtain rc out where "confirm_active sys s4 a skill_name cwd configured_roots packs
                 disabled dest [''Validation: '' @ message] = Return rc out" by blast
          with Pair None assms True inj n4 v t show ?thesis
            unfolding materialize_def by (simp add: Let_def inj)
        qed
      qed
    qed
  qed
qed

section \<open>Metadata injection: the header read back\<close>
























end
